theory Spec2Isabelle
  imports Main "HOL-Library.Sublist"
begin

section \<open>JavaScript values, objects and strings\<close>

text \<open>
  The values that travel through the service are flat JSON scalars (a row is a flat
  mapping from column names to scalars). Numbers are only carried around, never
  computed with and never printed, so an integer stands for them.
\<close>

datatype jsval = JUndefined | JNull | JBool bool | JNum int | JStr string

text \<open>
  A plain object is the list of its own enumerable properties in the order in which
  \<^verbatim>\<open>Object.keys\<close> enumerates them; its keys are pairwise distinct.
\<close>

type_synonym 'v obj = "(string \<times> 'v) list"

definition Object_keys :: "'v obj \<Rightarrow> string list" where
  "Object_keys ob = map fst ob"

definition Object_values :: "'v obj \<Rightarrow> 'v list" where
  "Object_values ob = map snd ob"

text \<open>\<^verbatim>\<open>Array.prototype.join\<close> on an array of strings.\<close>

fun join :: "string \<Rightarrow> string list \<Rightarrow> string" where
  "join sep [] = []"
| "join sep [x] = x"
| "join sep (x # y # ys) = x @ sep @ join sep (y # ys)"

text \<open>\<^verbatim>\<open>xs.map((x, i) => f(x, i))\<close>: the callback receives the element and its index.\<close>

fun mapi_from :: "nat \<Rightarrow> ('a \<Rightarrow> nat \<Rightarrow> 'b) \<Rightarrow> 'a list \<Rightarrow> 'b list" where
  "mapi_from i f [] = []"
| "mapi_from i f (x # xs) = f x i # mapi_from (Suc i) f xs"

definition mapi :: "('a \<Rightarrow> nat \<Rightarrow> 'b) \<Rightarrow> 'a list \<Rightarrow> 'b list" where
  "mapi f xs = mapi_from 0 f xs"

text \<open>A non-negative integer interpolated into a template literal: its decimal digits.\<close>

definition digit_char :: "nat \<Rightarrow> char" where
  "digit_char d = ''0123456789'' ! d"

function string_of_nat :: "nat \<Rightarrow> string" where
  "string_of_nat n =
     (if n < 10 then [digit_char n] else string_of_nat (n div 10) @ [digit_char (n mod 10)])"
  by pat_completeness auto
termination
  by (relation "measure id") auto

declare string_of_nat.simps [simp del]

section \<open>The row query builder (utils/propertyDataQueryBuilder.js)\<close>

text \<open>Every builder returns \<^verbatim>\<open>{ query, values }\<close>.\<close>

record 'v built =
  query :: string
  bind_values :: "'v list"

text \<open>The placeholder text \<^verbatim>\<open>`${key} = $${n}`\<close>.\<close>

definition placeholder :: "string \<Rightarrow> nat \<Rightarrow> string" where
  "placeholder key n = key @ '' = $'' @ string_of_nat n"

text \<open>
  \<^verbatim>\<open>buildSelectQuery(table, conditions = {}, columns = ['*'])\<close>: an omitted argument is
  \<open>None\<close> and takes its default.
\<close>

definition buildSelectQuery :: "string \<Rightarrow> 'v obj option \<Rightarrow> string list option \<Rightarrow> 'v built" where
  "buildSelectQuery table conditions_arg columns_arg =
     (let conditions = (case conditions_arg of None \<Rightarrow> [] | Some c \<Rightarrow> c);
          columns = (case columns_arg of None \<Rightarrow> [''*''] | Some cs \<Rightarrow> cs);
          keys = Object_keys conditions;
          whereClause =
            (if length keys \<noteq> 0
             then '' WHERE '' @ join '' AND '' (mapi (\<lambda>key i. placeholder key (i + 1)) keys)
             else '''');
          vals = Object_values conditions;
          q = ''SELECT '' @ join '', '' columns @ '' FROM '' @ table @ whereClause
      in \<lparr>query = q, bind_values = vals\<rparr>)"

definition buildInsertQuery :: "string \<Rightarrow> 'v obj \<Rightarrow> 'v built" where
  "buildInsertQuery table data =
     (let keys = Object_keys data;
          vals = Object_values data;
          placeholders = join '', '' (mapi (\<lambda>_ i. ''$'' @ string_of_nat (i + 1)) keys);
          q = ''INSERT INTO '' @ table @ '' ('' @ join '', '' keys @ '') VALUES ('' @
              placeholders @ '') RETURNING *''
      in \<lparr>query = q, bind_values = vals\<rparr>)"

definition buildUpdateQuery :: "string \<Rightarrow> 'v obj \<Rightarrow> 'v obj \<Rightarrow> 'v built" where
  "buildUpdateQuery table data conditions =
     (let dataKeys = Object_keys data;
          conditionKeys = Object_keys conditions;
          setClause = join '', '' (mapi (\<lambda>key i. placeholder key (i + 1)) dataKeys);
          whereClause =
            join '' AND '' (mapi (\<lambda>key i. placeholder key (length dataKeys + i + 1)) conditionKeys);
          q = ''UPDATE '' @ table @ '' SET '' @ setClause @ '' WHERE '' @ whereClause @
              '' RETURNING *'';
          vals = Object_values data @ Object_values conditions
      in \<lparr>query = q, bind_values = vals\<rparr>)"

definition buildDeleteQuery :: "string \<Rightarrow> 'v obj \<Rightarrow> 'v built" where
  "buildDeleteQuery table conditions =
     (let keys = Object_keys conditions;
          whereClause = join '' AND '' (mapi (\<lambda>key i. placeholder key (i + 1)) keys);
          q = ''DELETE FROM '' @ table @ '' WHERE '' @ whereClause;
          vals = Object_values conditions
      in \<lparr>query = q, bind_values = vals\<rparr>)"

section \<open>The column builder (utils/columnQueryBuilder.js)\<close>

text \<open>
  Strings are the UTF-8 bytes of the text. \<^verbatim>\<open>String.prototype.toUpperCase\<close> follows the
  Unicode upper-case mapping. On the letters \<open>a\<close> to \<open>z\<close> it gives \<open>A\<close> to \<open>Z\<close>. A
  character outside ASCII can upper-case into ASCII letters as well: these are dotless i
  (U+0131, to \<open>I\<close>), long s (U+017F, to \<open>S\<close>), sharp s (U+00DF, to \<open>SS\<close>) and the Latin
  ligatures U+FB00 to U+FB06 (to \<open>FF\<close>, \<open>FI\<close>, \<open>FL\<close>, \<open>FFI\<close>, \<open>FFL\<close>, \<open>ST\<close>,
  \<open>ST\<close>). The upper case of every other character outside ASCII has a character outside
  ASCII in it; such a character is kept as it is, which leaves membership in a set of ASCII
  words, and the text built for a member, as they are in JavaScript.
\<close>

definition strip_prefix :: "string \<Rightarrow> string \<Rightarrow> string option" where
  "strip_prefix p s = (if take (length p) s = p then Some (drop (length p) s) else None)"

definition to_upper_char :: "char \<Rightarrow> char" where
  "to_upper_char c =
     (let n = (of_char c :: nat) in if 97 \<le> n \<and> n \<le> 122 then char_of (n - 32) else c)"

definition upper_specials :: "(string \<times> string) list" where
  "upper_specials =
     [([CHR 0xC4, CHR 0xB1], ''I''),
      ([CHR 0xC5, CHR 0xBF], ''S''),
      ([CHR 0xC3, CHR 0x9F], ''SS''),
      ([CHR 0xEF, CHR 0xAC, CHR 0x80], ''FF''),
      ([CHR 0xEF, CHR 0xAC, CHR 0x81], ''FI''),
      ([CHR 0xEF, CHR 0xAC, CHR 0x82], ''FL''),
      ([CHR 0xEF, CHR 0xAC, CHR 0x83], ''FFI''),
      ([CHR 0xEF, CHR 0xAC, CHR 0x84], ''FFL''),
      ([CHR 0xEF, CHR 0xAC, CHR 0x85], ''ST''),
      ([CHR 0xEF, CHR 0xAC, CHR 0x86], ''ST'')]"

fun first_special :: "(string \<times> string) list \<Rightarrow> string \<Rightarrow> (string \<times> string) option" where
  "first_special [] s = None"
| "first_special ((p, u) # ps) s =
     (case strip_prefix p s of Some rest \<Rightarrow> Some (u, rest) | None \<Rightarrow> first_special ps s)"

lemma first_special_shorter:
  "first_special ps s = Some (u, rest) \<Longrightarrow> \<forall>(p, v) \<in> set ps. p \<noteq> [] \<Longrightarrow> length rest < length s"
proof (induction ps)
  case Nil
  then show ?case by simp
next
  case (Cons a ps)
  obtain p v where a: "a = (p, v)" by (cases a)
  show ?case
  proof (cases "strip_prefix p s")
    case None
    with Cons a show ?thesis by simp
  next
    case (Some r)
    with Cons.prems a have "rest = r" and "p \<noteq> []" by simp_all
    moreover from Some have "take (length p) s = p" and "r = drop (length p) s"
      by (simp_all add: strip_prefix_def split: if_splits)
    ultimately show ?thesis
      by (metis diff_less length_drop length_greater_0_conv take_eq_Nil)
  qed
qed

lemma upper_specials_nonempty: "\<forall>(p, v) \<in> set upper_specials. p \<noteq> []"
  by (simp add: upper_specials_def)

function toUpperCase :: "string \<Rightarrow> string" where
  "toUpperCase [] = []"
| "toUpperCase (c # cs) =
     (case first_special upper_specials (c # cs) of
        Some (u, rest) \<Rightarrow> u @ toUpperCase rest
      | None \<Rightarrow> to_upper_char c # toUpperCase cs)"
  by pat_completeness auto
termination
proof (relation "measure length")
  show "wf (measure length)" by simp
next
  fix c cs x2 u rest
  assume "first_special upper_specials (c # cs) = Some x2" and "(u, rest) = x2"
  then have "first_special upper_specials (c # cs) = Some (u, rest)" by simp
  from first_special_shorter [OF this upper_specials_nonempty]
  show "(rest, c # cs) \<in> measure length" by simp
next
  fix c cs
  show "(cs, c # cs) \<in> measure length" by simp
qed

declare toUpperCase.simps [simp del]

text \<open>Thrown values: \<^verbatim>\<open>new Error(msg)\<close>, and the runtime's own \<^verbatim>\<open>TypeError\<close>.\<close>

datatype error = Error (message: string) | TypeError (message: string)

definition validTypes :: "string list" where
  "validTypes =
     [''VARCHAR'', ''TEXT'', ''NUMERIC'', ''INTEGER'', ''BOOLEAN'', ''DATE'', ''TIMESTAMP'']"

definition validateColumnType :: "string \<Rightarrow> bool" where
  "validateColumnType columnType = (toUpperCase columnType \<in> set validTypes)"

definition buildAddColumnQuery :: "string \<Rightarrow> string \<Rightarrow> error + string" where
  "buildAddColumnQuery columnName columnType =
     (if \<not> validateColumnType columnType then Inl (Error ''Invalid column type'')
      else Inr (''ALTER TABLE property_data ADD COLUMN '' @ columnName @ '' '' @
                toUpperCase columnType @ '';''))"

definition buildRenameColumnQuery :: "string \<Rightarrow> string \<Rightarrow> string" where
  "buildRenameColumnQuery oldColumnName newColumnName =
     ''ALTER TABLE property_data RENAME COLUMN '' @ oldColumnName @ '' TO '' @ newColumnName @
     '';''"

definition buildDeleteColumnQuery :: "string \<Rightarrow> string" where
  "buildDeleteColumnQuery columnName =
     ''ALTER TABLE property_data DROP COLUMN '' @ columnName @ '';''"

definition buildGetColumnsQuery :: "string \<Rightarrow> string" where
  "buildGetColumnsQuery table =
     ''\<newline>    SELECT column_name, data_type \<newline>    FROM information_schema.columns \<newline>    WHERE table_name = '' @
     [CHR 0x27] @ table @ [CHR 0x27] @ ''\<newline>  ''"

text \<open>
  Case-insensitive comparison as the specification words it: two strings are the same
  once the letters \<open>A\<close> to \<open>Z\<close> of both are folded to lower case.
\<close>

definition to_lower_char :: "char \<Rightarrow> char" where
  "to_lower_char c =
     (let n = (of_char c :: nat) in if 65 \<le> n \<and> n \<le> 90 then char_of (n + 32) else c)"

definition same_ignoring_case :: "string \<Rightarrow> string \<Rightarrow> bool" where
  "same_ignoring_case a b = (map to_lower_char a = map to_lower_char b)"

definition allowed_type :: "string \<Rightarrow> bool" where
  "allowed_type t = (\<exists>v \<in> set validTypes. same_ignoring_case t v)"

definition is_ascii :: "string \<Rightarrow> bool" where
  "is_ascii s = list_all (\<lambda>c. (of_char c :: nat) < 128) s"

section \<open>The connection pool and the calls it receives\<close>

text \<open>
  \<^verbatim>\<open>config/db.js\<close> exports the connection pool; it is a parameter of everything below. A
  pool answers a query text with its bind values by the rows of the result or by a thrown
  error, and moves the database on. \<^verbatim>\<open>pool.query(text)\<close> without bind values is the
  call with the empty list. The world is the database together with the log of every call
  that reached \<^verbatim>\<open>pool.query\<close>.
\<close>

type_synonym row = "jsval obj"

type_synonym 'db pool = "'db \<Rightarrow> string \<Rightarrow> jsval list \<Rightarrow> (error + row list) \<times> 'db"

record 'db world =
  db :: 'db
  calls :: "(string \<times> jsval list) list"

definition pool_query ::
  "'db pool \<Rightarrow> string \<Rightarrow> jsval list \<Rightarrow> 'db world \<Rightarrow> (error + row list) \<times> 'db world" where
  "pool_query pool text vals w =
     (case pool (db w) text vals of
        (r, d') \<Rightarrow> (r, \<lparr>db = d', calls = calls w @ [(text, vals)]\<rparr>))"

text \<open>
  Property read \<^verbatim>\<open>ob[key]\<close> of an own property, and property write \<^verbatim>\<open>ob[key] = v\<close>
  on an object that was created as \<^verbatim>\<open>{}\<close>. On such an object the key \<^verbatim>\<open>__proto__\<close>
  names the accessor inherited from \<^verbatim>\<open>Object.prototype\<close>: the write goes to its setter
  and creates no own property, so the keys of the object stay as they were.
\<close>

definition obj_get :: "jsval obj \<Rightarrow> string \<Rightarrow> jsval" where
  "obj_get ob key = (case map_of ob key of None \<Rightarrow> JUndefined | Some v \<Rightarrow> v)"

definition obj_set :: "'v obj \<Rightarrow> string \<Rightarrow> 'v \<Rightarrow> 'v obj" where
  "obj_set ob key v =
     (if key = ''__proto__'' then ob
      else if key \<in> set (Object_keys ob)
      then map (\<lambda>(k, u). if k = key then (k, v) else (k, u)) ob
      else ob @ [(key, v)])"

text \<open>\<^verbatim>\<open>result.rows[0]\<close>: the first row, or \<^verbatim>\<open>undefined\<close> (\<open>None\<close>) when there is none.\<close>

definition first_row :: "row list \<Rightarrow> row option" where
  "first_row rs = (case rs of [] \<Rightarrow> None | r # _ \<Rightarrow> Some r)"

section \<open>The repository (models/propertyModel.js)\<close>

definition columnNamesQuery :: string where
  "columnNamesQuery =
     ''\<newline>    SELECT column_name \<newline>    FROM information_schema.columns \<newline>    WHERE table_name = 'property_data';\<newline>  ''"

text \<open>\<^verbatim>\<open>result.rows.map(row => row.column_name)\<close>\<close>

definition column_names :: "row list \<Rightarrow> jsval list" where
  "column_names rs = map (\<lambda>r. obj_get r ''column_name'') rs"

definition getTableColumnsNames :: "'db pool \<Rightarrow> 'db world \<Rightarrow> (error + jsval list) \<times> 'db world" where
  "getTableColumnsNames pool w =
     (case pool_query pool columnNamesQuery [] w of
        (Inl e, w') \<Rightarrow> (Inl e, w')
      | (Inr rs, w') \<Rightarrow> (Inr (column_names rs), w'))"

definition getTableColumns :: "'db pool \<Rightarrow> 'db world \<Rightarrow> (error + row list) \<times> 'db world" where
  "getTableColumns pool w = pool_query pool (buildGetColumnsQuery ''property_data'') [] w"

definition fetchAllProperties :: "'db pool \<Rightarrow> 'db world \<Rightarrow> (error + row list) \<times> 'db world" where
  "fetchAllProperties pool w =
     (let b = buildSelectQuery ''property_data'' None None
      in pool_query pool (query b) (bind_values b) w)"

definition fetchPropertyById ::
  "'db pool \<Rightarrow> jsval \<Rightarrow> 'db world \<Rightarrow> (error + row option) \<times> 'db world" where
  "fetchPropertyById pool ident w =
     (let b = buildSelectQuery ''property_data'' (Some [(''id'', ident)]) None
      in case pool_query pool (query b) (bind_values b) w of
           (Inl e, w') \<Rightarrow> (Inl e, w')
         | (Inr rs, w') \<Rightarrow> (Inr (first_row rs), w'))"

text \<open>
  The filtering loop of \<^verbatim>\<open>insertProperty\<close> and \<^verbatim>\<open>updateProperty\<close>:
  \<^verbatim>\<open>Object.keys(src).forEach(key => { if (tableColumns.includes(key)) dst[key] = src[key]; })\<close>
  starting from the empty object.
\<close>

definition copy_valid_columns :: "jsval list \<Rightarrow> jsval obj \<Rightarrow> jsval obj" where
  "copy_valid_columns tableColumns src =
     fold (\<lambda>key dst. if JStr key \<in> set tableColumns then obj_set dst key (obj_get src key) else dst)
       (Object_keys src) []"

definition insertProperty ::
  "'db pool \<Rightarrow> jsval obj \<Rightarrow> 'db world \<Rightarrow> (error + row option) \<times> 'db world" where
  "insertProperty pool newProperty w =
     (case getTableColumnsNames pool w of
        (Inl e, w1) \<Rightarrow> (Inl e, w1)
      | (Inr tableColumns, w1) \<Rightarrow>
          (let propertyData = copy_valid_columns tableColumns newProperty
           in if length (Object_keys propertyData) = 0
              then (Inl (Error ''No valid columns found to insert''), w1)
              else (let b = buildInsertQuery ''property_data'' propertyData
                    in case pool_query pool (query b) (bind_values b) w1 of
                         (Inl e, w2) \<Rightarrow> (Inl e, w2)
                       | (Inr rs, w2) \<Rightarrow> (Inr (first_row rs), w2))))"

definition updateProperty ::
  "'db pool \<Rightarrow> jsval \<Rightarrow> jsval obj \<Rightarrow> 'db world \<Rightarrow> (error + row option) \<times> 'db world" where
  "updateProperty pool ident updates w =
     (case getTableColumnsNames pool w of
        (Inl e, w1) \<Rightarrow> (Inl e, w1)
      | (Inr tableColumns, w1) \<Rightarrow>
          (let updateData = copy_valid_columns tableColumns updates
           in if length (Object_keys updateData) = 0
              then (Inl (Error ''No valid columns found to update''), w1)
              else (let b = buildUpdateQuery ''property_data'' updateData [(''id'', ident)]
                    in case pool_query pool (query b) (bind_values b) w1 of
                         (Inl e, w2) \<Rightarrow> (Inl e, w2)
                       | (Inr rs, w2) \<Rightarrow> (Inr (first_row rs), w2))))"

definition deleteProperty ::
  "'db pool \<Rightarrow> jsval \<Rightarrow> 'db world \<Rightarrow> (error + unit) \<times> 'db world" where
  "deleteProperty pool ident w =
     (let b = buildDeleteQuery ''property_data'' [(''id'', ident)]
      in case pool_query pool (query b) (bind_values b) w of
           (Inl e, w') \<Rightarrow> (Inl e, w')
         | (Inr _, w') \<Rightarrow> (Inr (), w'))"

definition addColumn ::
  "'db pool \<Rightarrow> string \<Rightarrow> string \<Rightarrow> 'db world \<Rightarrow> (error + unit) \<times> 'db world" where
  "addColumn pool columnName columnType w =
     (case getTableColumnsNames pool w of
        (Inl e, w1) \<Rightarrow> (Inl e, w1)
      | (Inr existingColumns, w1) \<Rightarrow>
          (if JStr columnName \<in> set existingColumns
           then (Inl (Error (''Column '' @ [CHR 0x27] @ columnName @ [CHR 0x27] @
                   '' already exists in the property_data table.'')), w1)
           else (case buildAddColumnQuery columnName columnType of
                   Inl e \<Rightarrow> (Inl e, w1)
                 | Inr q \<Rightarrow>
                     (case pool_query pool q [] w1 of
                        (Inl e, w2) \<Rightarrow> (Inl e, w2)
                      | (Inr _, w2) \<Rightarrow> (Inr (), w2)))))"

definition renameColumn ::
  "'db pool \<Rightarrow> string \<Rightarrow> string \<Rightarrow> 'db world \<Rightarrow> (error + unit) \<times> 'db world" where
  "renameColumn pool oldColumnName newColumnName w =
     (case pool_query pool (buildRenameColumnQuery oldColumnName newColumnName) [] w of
        (Inl e, w') \<Rightarrow> (Inl e, w')
      | (Inr _, w') \<Rightarrow> (Inr (), w'))"

definition deleteColumn ::
  "'db pool \<Rightarrow> string \<Rightarrow> 'db world \<Rightarrow> (error + unit) \<times> 'db world" where
  "deleteColumn pool columnName w =
     (case pool_query pool (buildDeleteColumnQuery columnName) [] w of
        (Inl e, w') \<Rightarrow> (Inl e, w')
      | (Inr _, w') \<Rightarrow> (Inr (), w'))"

section \<open>The HTTP handlers (controllers/propertyController.js)\<close>

text \<open>
  A handler reads the request, calls one operation of the repository module and answers
  with a status and a JSON body. The repository operation is a parameter of the handler,
  as the module object is for the controller. \<^verbatim>\<open>res.json(undefined)\<close> sends no body.
\<close>

record request =
  params :: "(string \<times> string) list"
  body :: "jsval obj"

text \<open>
  A message built by a template literal is kept as its pieces, the literal text and the
  interpolated values, so that no rendering of a value is assumed.
\<close>

datatype piece = Text string | Value jsval

datatype payload =
  Json_row row | Json_rows "row list" | Json_error string | Json_message "piece list" | No_body

record response =
  status :: nat
  json :: payload

definition param :: "request \<Rightarrow> string \<Rightarrow> jsval" where
  "param req name = (case map_of (params req) name of None \<Rightarrow> JUndefined | Some s \<Rightarrow> JStr s)"

definition json_row_or_nothing :: "row option \<Rightarrow> payload" where
  "json_row_or_nothing r = (case r of None \<Rightarrow> No_body | Some x \<Rightarrow> Json_row x)"




definition handle_updateProperty ::
  "(jsval \<Rightarrow> jsval obj \<Rightarrow> 'w \<Rightarrow> (error + row option) \<times> 'w) \<Rightarrow> request \<Rightarrow> 'w \<Rightarrow> response \<times> 'w" where
  "handle_updateProperty model req w =
     (let ident = param req ''id'';
          updates = body req
      in case model ident updates w of
           (Inr result, w') \<Rightarrow> (\<lparr>status = 200, json = json_row_or_nothing result\<rparr>, w')
         | (Inl e, w') \<Rightarrow> (\<lparr>status = 500, json = Json_error (message e)\<rparr>, w'))"






section \<open>Schema reconciliation (config/checkSchema.js)\<close>

record column =
  column_name :: string
  data_type :: string

definition requiredColumns :: "column list" where
  "requiredColumns =
     [\<lparr>column_name = ''property_name'', data_type = ''VARCHAR''\<rparr>,
      \<lparr>column_name = ''address'', data_type = ''VARCHAR''\<rparr>,
      \<lparr>column_name = ''total_area_in_sqft'', data_type = ''NUMERIC''\<rparr>,
      \<lparr>column_name = ''price_in_cr'', data_type = ''NUMERIC''\<rparr>,
      \<lparr>column_name = ''listed_date'', data_type = ''DATE''\<rparr>,
      \<lparr>column_name = ''status'', data_type = ''VARCHAR''\<rparr>,
      \<lparr>column_name = ''total_earnings'', data_type = ''NUMERIC''\<rparr>]"

definition tableCheckQuery :: string where
  "tableCheckQuery =
     ''\<newline>      SELECT EXISTS (\<newline>        SELECT FROM information_schema.tables \<newline>        WHERE table_name = 'property_data'\<newline>      );\<newline>    ''"

definition createTableQuery :: string where
  "createTableQuery =
     ''\<newline>        CREATE TABLE property_data (\<newline>          id SERIAL PRIMARY KEY,\<newline>          property_name VARCHAR,\<newline>          address VARCHAR,\<newline>          total_area_in_sqft NUMERIC,\<newline>          price_in_cr NUMERIC,\<newline>          listed_date DATE,\<newline>          status VARCHAR,\<newline>          total_earnings NUMERIC\<newline>        );\<newline>      ''"

text \<open>JavaScript truthiness, for \<^verbatim>\<open>!tableCheckResult.rows[0].exists\<close>.\<close>

definition truthy :: "jsval \<Rightarrow> bool" where
  "truthy v =
     (case v of
        JUndefined \<Rightarrow> False
      | JNull \<Rightarrow> False
      | JBool b \<Rightarrow> b
      | JNum n \<Rightarrow> n \<noteq> 0
      | JStr s \<Rightarrow> s \<noteq> [])"

text \<open>The reconciler's own \<^verbatim>\<open>getTableColumns\<close> and \<^verbatim>\<open>addColumn\<close> (module-local).\<close>

definition schema_getTableColumns ::
  "'db pool \<Rightarrow> 'db world \<Rightarrow> (error + jsval list) \<times> 'db world" where
  "schema_getTableColumns pool w =
     (case pool_query pool columnNamesQuery [] w of
        (Inl e, w') \<Rightarrow> (Inl e, w')
      | (Inr rs, w') \<Rightarrow> (Inr (column_names rs), w'))"

definition addColumnText :: "column \<Rightarrow> string" where
  "addColumnText c =
     ''ALTER TABLE property_data ADD COLUMN '' @ column_name c @ '' '' @ data_type c @ '';''"

text \<open>The \<^verbatim>\<open>catch\<close> of \<^verbatim>\<open>addColumn\<close> only logs: a failed statement does not stop the caller.\<close>

definition schema_addColumn :: "'db pool \<Rightarrow> column \<Rightarrow> 'db world \<Rightarrow> 'db world" where
  "schema_addColumn pool c w =
     (case pool_query pool (addColumnText c) [] w of
        (Inl e, w') \<Rightarrow> w'
      | (Inr _, w') \<Rightarrow> w')"

text \<open>The \<^verbatim>\<open>for\<close> loop of \<^verbatim>\<open>ensureColumns\<close> over the required columns.\<close>

fun ensureColumns_loop :: "'db pool \<Rightarrow> jsval list \<Rightarrow> column list \<Rightarrow> 'db world \<Rightarrow> 'db world" where
  "ensureColumns_loop pool existingColumns [] w = w"
| "ensureColumns_loop pool existingColumns (c # cs) w =
     (if JStr (column_name c) \<notin> set existingColumns
      then ensureColumns_loop pool existingColumns cs (schema_addColumn pool c w)
      else ensureColumns_loop pool existingColumns cs w)"

text \<open>
  The required columns that the loop finds missing: \<open>baseline \ existingColumns\<close> in the
  words of the specification.
\<close>

definition missing :: "jsval list \<Rightarrow> column list \<Rightarrow> column list" where
  "missing ex reqs = filter (\<lambda>c. JStr (column_name c) \<notin> set ex) reqs"

definition ensureColumns :: "'db pool \<Rightarrow> 'db world \<Rightarrow> (error + unit) \<times> 'db world" where
  "ensureColumns pool w =
     (case schema_getTableColumns pool w of
        (Inl e, w1) \<Rightarrow> (Inl e, w1)
      | (Inr existingColumns, w1) \<Rightarrow>
          (Inr (), ensureColumns_loop pool existingColumns requiredColumns w1))"

text \<open>
  \<^verbatim>\<open>ensureTableSchema\<close> catches everything and only logs it, so it always completes; what
  it leaves behind is the world. Reading \<^verbatim>\<open>.exists\<close> of a missing first row throws and is
  caught like any other error.
\<close>

definition ensureTableSchema :: "'db pool \<Rightarrow> 'db world \<Rightarrow> 'db world" where
  "ensureTableSchema pool w =
     (case pool_query pool tableCheckQuery [] w of
        (Inl e, w1) \<Rightarrow> w1
      | (Inr rs, w1) \<Rightarrow>
          (case first_row rs of
             None \<Rightarrow> w1
           | Some r \<Rightarrow>
               (if \<not> truthy (obj_get r ''exists'')
                then (case pool_query pool createTableQuery [] w1 of
                        (Inl e, w2) \<Rightarrow> w2
                      | (Inr _, w2) \<Rightarrow> snd (ensureColumns pool w2))
                else snd (ensureColumns pool w1))))"

section \<open>The database catalog\<close>

text \<open>
  Modelled from the spec: the database behind the pool of \<^verbatim>\<open>config/db.js\<close>, which is
  not among the sources. Of a database only its metadata catalog for the table
  \<^verbatim>\<open>property_data\<close> is observed: \<open>None\<close> when the table is absent, otherwise the names
  of its columns in order.
\<close>

type_synonym catalog = "string list option"

definition created_columns :: "string list" where
  "created_columns =
     [''id'', ''property_name'', ''address'', ''total_area_in_sqft'', ''price_in_cr'',
      ''listed_date'', ''status'', ''total_earnings'']"

definition catalog_columns :: "catalog \<Rightarrow> string list" where
  "catalog_columns cat = (case cat of None \<Rightarrow> [] | Some cs \<Rightarrow> cs)"

text \<open>
  Modelled from the spec: a database accepts the reconciler when its catalog answers are
  true and its DDL goes through. The existence check tells whether the table is there,
  the column-name query lists the columns of the catalog, and neither changes the catalog;
  creating the absent table succeeds and gives it the identifier and the baseline columns;
  adding a required column that the table does not have yet succeeds and appends it. The
  predicate says nothing about a database that refuses a statement, about a table that
  the catalog query does not see, or about any other statement.
\<close>

definition accepts_reconciler :: "'db pool \<Rightarrow> ('db \<Rightarrow> catalog) \<Rightarrow> bool" where
  "accepts_reconciler pool cat \<longleftrightarrow>
     (\<forall>d. \<exists>rs d' r. pool d tableCheckQuery [] = (Inr rs, d') \<and> cat d' = cat d
            \<and> first_row rs = Some r \<and> truthy (obj_get r ''exists'') = (cat d \<noteq> None))
   \<and> (\<forall>d. cat d = None \<longrightarrow>
          (\<exists>rs d'. pool d createTableQuery [] = (Inr rs, d') \<and> cat d' = Some created_columns))
   \<and> (\<forall>d. \<exists>rs d'. pool d columnNamesQuery [] = (Inr rs, d') \<and> cat d' = cat d
            \<and> column_names rs = map JStr (catalog_columns (cat d)))
   \<and> (\<forall>d c cs. c \<in> set requiredColumns \<longrightarrow> cat d = Some cs \<longrightarrow> column_name c \<notin> set cs \<longrightarrow>
          (\<exists>rs d'. pool d (addColumnText c) [] = (Inr rs, d')
             \<and> cat d' = Some (cs @ [column_name c])))"

text \<open>
  Modelled from the spec: one database of that kind, whose state is the catalog itself,
  for running the operations on examples. It answers the existence check and the
  column-name query, creates the table, and adds, drops and renames a column, folding an
  unquoted identifier to lower case as the database does; a statement that the database
  would reject (the table or column is already there, or is missing) raises an error and
  changes nothing. Any other text is rejected.
\<close>

definition fold_identifier :: "string \<Rightarrow> string" where
  "fold_identifier name = map to_lower_char name"

definition pg_add_column :: "string \<Rightarrow> catalog \<Rightarrow> (error + row list) \<times> catalog" where
  "pg_add_column name cat =
     (case cat of
        None \<Rightarrow> (Inl (Error ''relation does not exist''), cat)
      | Some cs \<Rightarrow>
          (if name \<in> set cs then (Inl (Error ''column already exists''), cat)
           else (Inr [], Some (cs @ [name]))))"

definition pg_drop_column :: "string \<Rightarrow> catalog \<Rightarrow> (error + row list) \<times> catalog" where
  "pg_drop_column name cat =
     (case cat of
        None \<Rightarrow> (Inl (Error ''relation does not exist''), cat)
      | Some cs \<Rightarrow>
          (if name \<in> set cs then (Inr [], Some (remove1 name cs))
           else (Inl (Error ''column does not exist''), cat)))"

definition pg_rename_column :: "string \<Rightarrow> string \<Rightarrow> catalog \<Rightarrow> (error + row list) \<times> catalog" where
  "pg_rename_column old new cat =
     (case cat of
        None \<Rightarrow> (Inl (Error ''relation does not exist''), cat)
      | Some cs \<Rightarrow>
          (if old \<in> set cs \<and> new \<notin> set cs
           then (Inr [], Some (map (\<lambda>c. if c = old then new else c) cs))
           else (Inl (Error ''cannot rename column''), cat)))"

definition pg_query :: "catalog pool" where
  "pg_query cat text vals =
     (if text = tableCheckQuery then (Inr [[(''exists'', JBool (cat \<noteq> None))]], cat)
      else if text = createTableQuery then
        (case cat of
           None \<Rightarrow> (Inr [], Some created_columns)
         | Some _ \<Rightarrow> (Inl (Error ''relation already exists''), cat))
      else if text = columnNamesQuery then
        (Inr (map (\<lambda>n. [(''column_name'', JStr n)]) (catalog_columns cat)), cat)
      else
        (case strip_prefix ''ALTER TABLE property_data ADD COLUMN '' text of
           Some rest \<Rightarrow>
             pg_add_column (fold_identifier (takeWhile (\<lambda>c. c \<noteq> CHR '' '') rest)) cat
         | None \<Rightarrow>
             (case strip_prefix ''ALTER TABLE property_data DROP COLUMN '' text of
                Some rest \<Rightarrow>
                  pg_drop_column (fold_identifier (takeWhile (\<lambda>c. c \<noteq> CHR '';'') rest)) cat
              | None \<Rightarrow>
                  (case strip_prefix ''ALTER TABLE property_data RENAME COLUMN '' text of
                     Some rest \<Rightarrow>
                       (let old = takeWhile (\<lambda>c. c \<noteq> CHR '' '') rest;
                            new = takeWhile (\<lambda>c. c \<noteq> CHR '';'') (drop (length old + 4) rest)
                        in pg_rename_column (fold_identifier old) (fold_identifier new) cat)
                   | None \<Rightarrow> (Inl (Error ''statement not understood''), cat)))))"

text \<open>
  Modelled from the spec: a database that answers the two catalog queries as above and
  refuses every other statement (the failing additions of section 4.3 of the
  specification).
\<close>

definition refusing_pool :: "catalog pool" where
  "refusing_pool cat text vals =
     (if text = tableCheckQuery \<or> text = columnNamesQuery then pg_query cat text vals
      else (Inl (Error ''permission denied''), cat))"

text \<open>
  A stubbed pool in the manner of the test suite: the column-name query is answered with
  the given column names, every other query with the given rows; the database is a
  counter of the calls answered.
\<close>

definition stub_pool :: "string list \<Rightarrow> row list \<Rightarrow> nat pool" where
  "stub_pool cols result n text vals =
     (if text = columnNamesQuery then (Inr (map (\<lambda>c. [(''column_name'', JStr c)]) cols), Suc n)
      else (Inr result, Suc n))"

definition world0 :: "'db \<Rightarrow> 'db world" where
  "world0 d = \<lparr>db = d, calls = []\<rparr>"

section \<open>Facts about the list helpers\<close>

lemma length_mapi_from: "length (mapi_from i f xs) = length xs"
  by (induction xs arbitrary: i) simp_all

lemma nth_mapi_from: "j < length xs \<Longrightarrow> mapi_from i f xs ! j = f (xs ! j) (i + j)"
proof (induction xs arbitrary: i j)
  case Nil
  then show ?case by simp
next
  case (Cons x xs)
  show ?case
  proof (cases j)
    case 0
    then show ?thesis by simp
  next
    case (Suc k)
    with Cons.prems have "k < length xs" by simp
    from Cons.IH [OF this, of "Suc i"] Suc show ?thesis by simp
  qed
qed

lemma length_mapi: "length (mapi f xs) = length xs"
  by (simp add: mapi_def length_mapi_from)

lemma nth_mapi: "j < length xs \<Longrightarrow> mapi f xs ! j = f (xs ! j) j"
  by (simp add: mapi_def nth_mapi_from)

lemma mapi_Nil: "mapi f [] = []"
  by (simp add: mapi_def)

lemma mapi_map_upt: "mapi f (map g xs) = map (\<lambda>i. f (g (xs ! i)) i) [0..<length xs]"
  by (rule nth_equalityI) (simp_all add: length_mapi nth_mapi)



section \<open>The query builder: placeholders and bind values\<close>

text \<open>
  C1: for every table name, data object and conditions object, \<^verbatim>\<open>buildUpdateQuery\<close>
  returns the text \<^verbatim>\<open>UPDATE t SET k1 = $1, ..., kn = $n WHERE c1 = $(n+1) AND ... RETURNING *\<close>:
  the i-th data key carries placeholder i+1, the j-th condition key carries placeholder
  n+j+1, so the numbering of the conditions continues after the data. The bind values are
  the data values followed by the condition values, in key order. In particular
  \<^verbatim>\<open>buildUpdateQuery('t', {a:1,b:2}, {id:5})\<close> gives SET a, b, WHERE id with placeholders
  1, 2, 3 and the values 1, 2, 5. (The statement holds for empty objects as well.)
\<close>

theorem buildUpdateQuery_numbering:
  "query (buildUpdateQuery t d c) =
       ''UPDATE '' @ t @ '' SET '' @
       join '', '' (map (\<lambda>i. fst (d ! i) @ '' = $'' @ string_of_nat (i + 1)) [0..<length d]) @
       '' WHERE '' @
       join '' AND ''
         (map (\<lambda>j. fst (c ! j) @ '' = $'' @ string_of_nat (length d + j + 1)) [0..<length c]) @
       '' RETURNING *''
   \<and> bind_values (buildUpdateQuery t d c) = map snd d @ map snd c
   \<and> buildUpdateQuery ''t'' [(''a'', 1::int), (''b'', 2)] [(''id'', 5)] =
       \<lparr>query = ''UPDATE t SET a = $1, b = $2 WHERE id = $3 RETURNING *'',
        bind_values = [1, 2, 5]\<rparr>"
proof (intro conjI)
  show "buildUpdateQuery ''t'' [(''a'', 1::int), (''b'', 2)] [(''id'', 5)] =
       \<lparr>query = ''UPDATE t SET a = $1, b = $2 WHERE id = $3 RETURNING *'',
        bind_values = [1, 2, 5]\<rparr>"
    by (simp add: buildUpdateQuery_def Object_keys_def Object_values_def mapi_def placeholder_def
        string_of_nat.simps digit_char_def)
qed (simp_all add: buildUpdateQuery_def Object_keys_def Object_values_def mapi_map_upt
      placeholder_def Let_def)

text \<open>
  C9: neither \<^verbatim>\<open>buildUpdateQuery\<close> nor \<^verbatim>\<open>buildDeleteQuery\<close> guards against an empty
  conditions object. For every table and data object, \<^verbatim>\<open>buildUpdateQuery(t, d, {})\<close>
  returns a text that ends in \<^verbatim>\<open>WHERE  RETURNING *\<close> with an empty predicate, and
  \<^verbatim>\<open>buildDeleteQuery(t, {})\<close> returns exactly \<^verbatim>\<open>DELETE FROM t WHERE \<close> with no bind
  values: the keyword is emitted although there is no condition.
\<close>

theorem empty_conditions_keep_where:
  "query (buildUpdateQuery t d []) =
       ''UPDATE '' @ t @ '' SET '' @
       join '', '' (map (\<lambda>i. fst (d ! i) @ '' = $'' @ string_of_nat (i + 1)) [0..<length d]) @
       '' WHERE  RETURNING *''
   \<and> suffix ''WHERE  RETURNING *'' (query (buildUpdateQuery t d []))
   \<and> buildDeleteQuery t [] = \<lparr>query = ''DELETE FROM '' @ t @ '' WHERE '', bind_values = []\<rparr>"
proof (intro conjI)
  show q: "query (buildUpdateQuery t d []) =
       ''UPDATE '' @ t @ '' SET '' @
       join '', '' (map (\<lambda>i. fst (d ! i) @ '' = $'' @ string_of_nat (i + 1)) [0..<length d]) @
       '' WHERE  RETURNING *''"
    by (simp add: buildUpdateQuery_def Object_keys_def Object_values_def mapi_map_upt
        placeholder_def Let_def mapi_Nil)
  show "suffix ''WHERE  RETURNING *'' (query (buildUpdateQuery t d []))"
    unfolding q suffix_def by simp
  show "buildDeleteQuery t [] = \<lparr>query = ''DELETE FROM '' @ t @ '' WHERE '', bind_values = []\<rparr>"
    by (simp add: buildDeleteQuery_def Object_keys_def Object_values_def mapi_def)
qed





section \<open>The column builder: allowed types\<close>

lemma of_char_lt: "(of_char c :: nat) < 256"
proof -
  have "(of_char c :: nat) mod 256 = of_char c" by (rule of_char_mod_256)
  moreover have "(of_char c :: nat) mod 256 < 256" by simp
  ultimately show ?thesis by simp
qed

lemma to_lower_char_of:
  "(n::nat) < 256 \<Longrightarrow>
     to_lower_char (char_of n) = (if 65 \<le> n \<and> n \<le> 90 then char_of (n + 32) else char_of n)"
  by (simp add: to_lower_char_def Let_def)

lemma to_upper_char_of:
  "(n::nat) < 256 \<Longrightarrow>
     to_upper_char (char_of n) = (if 97 \<le> n \<and> n \<le> 122 then char_of (n - 32) else char_of n)"
  by (simp add: to_upper_char_def Let_def)

lemma lower_upper_char: "to_lower_char (to_upper_char c) = to_lower_char c"
proof -
  define n where "n = (of_char c :: nat)"
  have c: "c = char_of n" and lt: "n < 256"
    by (simp_all add: n_def of_char_lt)
  show ?thesis
  proof (cases "97 \<le> n \<and> n \<le> 122")
    case True
    then have "n - 32 < 256" and "65 \<le> n - 32 \<and> n - 32 \<le> 90" and "n - 32 + 32 = n"
      using lt by arith+
    then have "to_lower_char (char_of (n - 32)) = char_of n"
      by (simp add: to_lower_char_of)
    moreover have "to_lower_char (char_of n) = char_of n"
      using True lt by (simp add: to_lower_char_of)
    ultimately show ?thesis
      using True lt by (simp add: c to_upper_char_of)
  next
    case False
    then show ?thesis using lt by (auto simp add: c to_upper_char_of)
  qed
qed

lemma upper_lower_char: "to_upper_char (to_lower_char c) = to_upper_char c"
proof -
  define n where "n = (of_char c :: nat)"
  have c: "c = char_of n" and lt: "n < 256"
    by (simp_all add: n_def of_char_lt)
  show ?thesis
  proof (cases "65 \<le> n \<and> n \<le> 90")
    case True
    then have "n + 32 < 256" and "97 \<le> n + 32 \<and> n + 32 \<le> 122" and "n + 32 - 32 = n"
      by arith+
    then have "to_upper_char (char_of (n + 32)) = char_of n"
      by (simp add: to_upper_char_of)
    moreover have "to_upper_char (char_of n) = char_of n"
      using True lt by (simp add: to_upper_char_of)
    ultimately show ?thesis
      using True lt by (simp add: c to_lower_char_of)
  next
    case False
    then show ?thesis using lt by (auto simp add: c to_lower_char_of)
  qed
qed

lemma lower_upper_string: "map to_lower_char (map to_upper_char s) = map to_lower_char s"
  by (simp add: lower_upper_char)

lemma upper_lower_string: "map to_upper_char (map to_lower_char s) = map to_upper_char s"
  by (simp add: upper_lower_char)

lemma validTypes_upper: "v \<in> set validTypes \<Longrightarrow> map to_upper_char v = v"
  by (auto simp: validTypes_def to_upper_char_def)

lemma validTypes_lower_ascii:
  "v \<in> set validTypes \<Longrightarrow> is_ascii (map to_lower_char v)"
  by (auto simp: validTypes_def is_ascii_def to_lower_char_def)

lemma first_special_ascii:
  assumes "(of_char c :: nat) < 128"
  shows "first_special upper_specials (c # cs) = None"
proof -
  have "c \<noteq> CHR 0xC4" "c \<noteq> CHR 0xC5" "c \<noteq> CHR 0xC3" "c \<noteq> CHR 0xEF"
    using assms by auto
  then show ?thesis
    by (simp add: upper_specials_def strip_prefix_def)
qed

lemma toUpperCase_ascii: "is_ascii s \<Longrightarrow> toUpperCase s = map to_upper_char s"
  by (induction s) (simp_all add: is_ascii_def first_special_ascii toUpperCase.simps)

lemma to_lower_char_ascii:
  assumes "(of_char (to_lower_char c) :: nat) < 128"
  shows "(of_char c :: nat) < 128"
proof (cases "65 \<le> (of_char c :: nat) \<and> (of_char c :: nat) \<le> 90")
  case True
  then show ?thesis by simp
next
  case False
  then have "to_lower_char c = c" by (auto simp add: to_lower_char_def Let_def)
  with assms show ?thesis by simp
qed

lemma lower_ascii_string: "is_ascii (map to_lower_char s) \<Longrightarrow> is_ascii s"
  by (induction s) (auto simp add: is_ascii_def dest: to_lower_char_ascii)

lemma allowed_type_ascii: "allowed_type t \<Longrightarrow> is_ascii t"
proof -
  assume "allowed_type t"
  then obtain v where v: "v \<in> set validTypes" and eq: "map to_lower_char t = map to_lower_char v"
    unfolding allowed_type_def same_ignoring_case_def by blast
  from validTypes_lower_ascii [OF v] eq have "is_ascii (map to_lower_char t)" by simp
  then show "is_ascii t" by (rule lower_ascii_string)
qed

lemma validate_iff_allowed_ascii:
  assumes "is_ascii t"
  shows "validateColumnType t \<longleftrightarrow> allowed_type t"
proof
  assume "validateColumnType t"
  then have "map to_upper_char t \<in> set validTypes"
    by (simp add: validateColumnType_def toUpperCase_ascii [OF assms])
  moreover have "same_ignoring_case t (map to_upper_char t)"
    by (simp only: same_ignoring_case_def lower_upper_string)
  ultimately show "allowed_type t" unfolding allowed_type_def by blast
next
  assume "allowed_type t"
  then obtain v where v: "v \<in> set validTypes" and eq: "map to_lower_char t = map to_lower_char v"
    unfolding allowed_type_def same_ignoring_case_def by blast
  have "map to_upper_char t = map to_upper_char (map to_lower_char t)"
    by (simp only: upper_lower_string)
  also have "\<dots> = map to_upper_char (map to_lower_char v)" by (simp only: eq)
  also have "\<dots> = map to_upper_char v" by (simp only: upper_lower_string)
  also have "\<dots> = v" by (rule validTypes_upper [OF v])
  finally show "validateColumnType t"
    using v by (simp add: validateColumnType_def toUpperCase_ascii [OF assms])
qed

lemma allowed_type_validates: "allowed_type t \<Longrightarrow> validateColumnType t"
  using validate_iff_allowed_ascii [OF allowed_type_ascii] by blast

text \<open>
  C6, as the code has it: \<^verbatim>\<open>validateColumnType(t)\<close> is true exactly when the upper case of
  \<open>t\<close> is one of the allowed types. Every spelling of an allowed type that differs from it
  in the case of its letters is accepted (so \<^verbatim>\<open>varchar\<close> is), and among the ASCII strings
  nothing else is (so \<^verbatim>\<open>money\<close> is rejected). \<^verbatim>\<open>buildAddColumnQuery(name, type)\<close> throws
  the error \<^verbatim>\<open>Invalid column type\<close> if and only if \<^verbatim>\<open>validateColumnType(type)\<close> is false,
  and otherwise returns the ADD COLUMN statement with the type in upper case.
\<close>

theorem validateColumnType_case_insensitive:
  "(validateColumnType t \<longleftrightarrow> toUpperCase t \<in> set validTypes)
   \<and> (allowed_type t \<longrightarrow> validateColumnType t)
   \<and> (is_ascii t \<longrightarrow> (validateColumnType t \<longleftrightarrow> allowed_type t))
   \<and> validateColumnType ''varchar''
   \<and> \<not> validateColumnType ''money''
   \<and> (buildAddColumnQuery name t = Inl (Error ''Invalid column type'') \<longleftrightarrow>
        \<not> validateColumnType t)
   \<and> (isl (buildAddColumnQuery name t) \<longleftrightarrow> \<not> validateColumnType t)
   \<and> buildAddColumnQuery name t =
       (if validateColumnType t
        then Inr (''ALTER TABLE property_data ADD COLUMN '' @ name @ '' '' @ toUpperCase t @ '';'')
        else Inl (Error ''Invalid column type''))
   \<and> buildAddColumnQuery ''age'' ''integer'' =
       Inr ''ALTER TABLE property_data ADD COLUMN age INTEGER;''"
proof (intro conjI)
  show "validateColumnType t \<longleftrightarrow> toUpperCase t \<in> set validTypes"
    by (simp add: validateColumnType_def)
  show "allowed_type t \<longrightarrow> validateColumnType t"
    using allowed_type_validates by blast
  show "is_ascii t \<longrightarrow> (validateColumnType t \<longleftrightarrow> allowed_type t)"
    using validate_iff_allowed_ascii by blast
  show "validateColumnType ''varchar''"
    by code_simp
  show "\<not> validateColumnType ''money''"
    by code_simp
  show "buildAddColumnQuery ''age'' ''integer'' =
       Inr ''ALTER TABLE property_data ADD COLUMN age INTEGER;''"
    by code_simp
qed (simp_all add: buildAddColumnQuery_def)

theorem validateColumnType_case_insensitive_witness:
  "is_ascii ''TimeStamp''
   \<and> allowed_type ''TimeStamp''
   \<and> validateColumnType ''TimeStamp''
   \<and> is_ascii ''money''
   \<and> \<not> allowed_type ''money''
   \<and> buildAddColumnQuery ''seen'' ''TimeStamp'' =
       Inr ''ALTER TABLE property_data ADD COLUMN seen TIMESTAMP;''"
proof -
  have a: "is_ascii ''TimeStamp''" and m: "is_ascii ''money''"
    by (simp_all add: is_ascii_def)
  have al: "allowed_type ''TimeStamp''"
    by code_simp
  have up: "toUpperCase ''TimeStamp'' = ''TIMESTAMP''"
    by code_simp
  note inst = validateColumnType_case_insensitive [of "''TimeStamp''" "''seen''"]
  note bad = validateColumnType_case_insensitive [of "''money''" "''seen''"]
  have v: "validateColumnType ''TimeStamp''"
    using inst al by blast
  have "\<not> allowed_type ''money''"
    using bad by blast
  moreover have "buildAddColumnQuery ''seen'' ''TimeStamp'' =
       Inr ''ALTER TABLE property_data ADD COLUMN seen TIMESTAMP;''"
    using inst v by (simp add: up)
  ultimately show ?thesis using a m al v by (intro conjI)
qed

text \<open>
  C6, as stated, makes validation a comparison without regard to case. The type
  \<^verbatim>\<open>integer\<close> written with a dotless i (U+0131, the bytes C4 B1) is not an allowed type
  under any folding of the letters \<open>A\<close> to \<open>Z\<close>, but its upper case is \<^verbatim>\<open>INTEGER\<close>: it is
  accepted, and the statement built for it declares an INTEGER column.
\<close>

theorem validateColumnType_accepts_dotless_i:
  "validateColumnType (CHR 0xC4 # CHR 0xB1 # ''nteger'')
   \<and> \<not> allowed_type (CHR 0xC4 # CHR 0xB1 # ''nteger'')
   \<and> \<not> same_ignoring_case (CHR 0xC4 # CHR 0xB1 # ''nteger'') ''INTEGER''
   \<and> buildAddColumnQuery ''floor'' (CHR 0xC4 # CHR 0xB1 # ''nteger'') =
       Inr ''ALTER TABLE property_data ADD COLUMN floor INTEGER;''"
proof (intro conjI)
  show "validateColumnType (CHR 0xC4 # CHR 0xB1 # ''nteger'')"
    by code_simp
  show "\<not> allowed_type (CHR 0xC4 # CHR 0xB1 # ''nteger'')"
    by code_simp
  show "\<not> same_ignoring_case (CHR 0xC4 # CHR 0xB1 # ''nteger'') ''INTEGER''"
    by code_simp
  show "buildAddColumnQuery ''floor'' (CHR 0xC4 # CHR 0xB1 # ''nteger'') =
       Inr ''ALTER TABLE property_data ADD COLUMN floor INTEGER;''"
    by code_simp
qed

section \<open>The repository: filtering against the current columns\<close>

lemma obj_get_member:
  "distinct (map fst src) \<Longrightarrow> (k, v) \<in> set src \<Longrightarrow> obj_get src k = v"
  by (simp add: obj_get_def)

lemma obj_set_fresh:
  "k \<noteq> ''__proto__'' \<Longrightarrow> k \<notin> fst ` set dst \<Longrightarrow> obj_set dst k v = dst @ [(k, v)]"
  by (simp add: obj_set_def Object_keys_def)

lemma obj_set_proto: "obj_set dst ''__proto__'' v = dst"
  by (simp add: obj_set_def)

lemma copy_loop_filter:
  assumes "distinct (map fst rest)"
    and "fst ` set rest \<inter> fst ` set dst = {}"
    and "\<And>k v. (k, v) \<in> set rest \<Longrightarrow> obj_get src k = v"
  shows "fold (\<lambda>key dst. if JStr key \<in> set cols then obj_set dst key (obj_get src key) else dst)
           (map fst rest) dst
         = dst @ filter (\<lambda>(k, v). JStr k \<in> set cols \<and> k \<noteq> ''__proto__'') rest"
  using assms
proof (induction rest arbitrary: dst)
  case Nil
  then show ?case by simp
next
  case (Cons p rest)
  obtain k v where p: "p = (k, v)" by (cases p)
  have get: "obj_get src k = v" using Cons.prems(3) [of k v] p by simp
  have fresh: "k \<notin> fst ` set dst" using Cons.prems(2) p by auto
  have dist: "distinct (map fst rest)" and knot: "k \<notin> fst ` set rest"
    using Cons.prems(1) p by auto
  have rest_get: "\<And>k' v'. (k', v') \<in> set rest \<Longrightarrow> obj_get src k' = v'"
    using Cons.prems(3) by simp
  have same: "fst ` set rest \<inter> fst ` set dst = {}"
    using Cons.prems(2) by auto
  show ?case
  proof (cases "JStr k \<in> set cols")
    case True
    show ?thesis
    proof (cases "k = ''__proto__''")
      case proto: True
      from Cons.IH [OF dist same rest_get] True proto p
      show ?thesis by (simp add: obj_set_proto)
    next
      case plain: False
      have disj: "fst ` set rest \<inter> fst ` set (dst @ [(k, v)]) = {}"
        using Cons.prems(2) knot p by auto
      from Cons.IH [OF dist disj rest_get] True get fresh plain p
      show ?thesis by (simp add: obj_set_fresh)
    qed
  next
    case False
    from Cons.IH [OF dist same rest_get] False p
    show ?thesis by simp
  qed
qed

lemma copy_valid_columns_filter:
  assumes "distinct (map fst src)"
  shows "copy_valid_columns cols src =
      filter (\<lambda>(k, v). JStr k \<in> set cols \<and> k \<noteq> ''__proto__'') src"
proof -
  have "fold (\<lambda>key dst. if JStr key \<in> set cols then obj_set dst key (obj_get src key) else dst)
           (map fst src) []
         = [] @ filter (\<lambda>(k, v). JStr k \<in> set cols \<and> k \<noteq> ''__proto__'') src"
    by (rule copy_loop_filter) (use assms in \<open>simp_all add: obj_get_member\<close>)
  then show ?thesis by (simp add: copy_valid_columns_def Object_keys_def)
qed


lemma getTableColumnsNames_ok:
  "pool (db w) columnNamesQuery [] = (Inr rs, d1) \<Longrightarrow>
     getTableColumnsNames pool w =
       (Inr (column_names rs), \<lparr>db = d1, calls = calls w @ [(columnNamesQuery, [])]\<rparr>)"
  by (simp add: getTableColumnsNames_def pool_query_def)

lemma copy_valid_columns_none:
  assumes "\<And>k. k \<in> set (Object_keys src) \<Longrightarrow> JStr k \<notin> set cols"
  shows "copy_valid_columns cols src = []"
proof -
  have "fold (\<lambda>key dst. if JStr key \<in> set cols then obj_set dst key (obj_get src key) else dst)
          ks dst = dst" if "\<And>k. k \<in> set ks \<Longrightarrow> JStr k \<notin> set cols" for ks and dst :: "jsval obj"
    using that by (induction ks arbitrary: dst) simp_all
  from this [of "Object_keys src" "[]"] assms show ?thesis
    by (simp add: copy_valid_columns_def)
qed

lemma stub_columns:
  "stub_pool cols res n columnNamesQuery [] =
     (Inr (map (\<lambda>c. [(''column_name'', JStr c)]) cols), Suc n)"
  by (simp add: stub_pool_def)

lemma column_names_stub:
  "column_names (map (\<lambda>c. [(''column_name'', JStr c)]) cols) = map JStr cols"
  by (simp add: column_names_def obj_get_def comp_def)





lemma pg_columns:
  "pg_query cat columnNamesQuery [] =
     (Inr (map (\<lambda>n. [(''column_name'', JStr n)]) (catalog_columns cat)), cat)"
  by (simp add: pg_query_def columnNamesQuery_def tableCheckQuery_def createTableQuery_def)

lemma mapi_single: "mapi f [x] = [f x 0]"
  by (simp add: mapi_def)

lemma JStr_mem_map: "JStr k \<in> set (map JStr cs) \<longleftrightarrow> k \<in> set cs"
  by auto

text \<open>
  C4, as the code has it: when the column-name query succeeds and no key of the input is
  a current column (the empty object included), \<^verbatim>\<open>insertProperty\<close> fails with
  \<^verbatim>\<open>No valid columns found to insert\<close> and \<^verbatim>\<open>updateProperty\<close> fails with
  \<^verbatim>\<open>No valid columns found to update\<close>; the only call that reaches the database is the
  column-name query, so no INSERT and no UPDATE is sent.
\<close>

theorem no_valid_columns_one_catalog_call:
  assumes "pool (db w) columnNamesQuery [] = (Inr rs, d1)"
    and "\<forall>k \<in> set (Object_keys ob). JStr k \<notin> set (column_names rs)"
  shows "insertProperty pool ob w =
      (Inl (Error ''No valid columns found to insert''),
       \<lparr>db = d1, calls = calls w @ [(columnNamesQuery, [])]\<rparr>)
    \<and> updateProperty pool ident ob w =
      (Inl (Error ''No valid columns found to update''),
       \<lparr>db = d1, calls = calls w @ [(columnNamesQuery, [])]\<rparr>)"
proof -
  have names: "getTableColumnsNames pool w =
      (Inr (column_names rs), \<lparr>db = d1, calls = calls w @ [(columnNamesQuery, [])]\<rparr>)"
    using assms(1) by (rule getTableColumnsNames_ok)
  have copy: "copy_valid_columns (column_names rs) ob = []"
    using assms(2) by (intro copy_valid_columns_none) simp
  show ?thesis
    by (simp add: insertProperty_def updateProperty_def names copy Object_keys_def)
qed

theorem no_valid_columns_one_catalog_call_witness:
  "(\<exists>rs. stub_pool [''property_name'', ''address''] [] (db (world0 0)) columnNamesQuery [] = (Inr rs, 1)
         \<and> JStr ''invalid_field'' \<notin> set (column_names rs))
   \<and> insertProperty (stub_pool [''property_name'', ''address''] [])
        [(''invalid_field'', JStr ''Invalid'')] (world0 0) =
      (Inl (Error ''No valid columns found to insert''),
       \<lparr>db = 1, calls = [(columnNamesQuery, [])]\<rparr>)
   \<and> updateProperty (stub_pool [''property_name'', ''address''] []) (JStr ''1'')
        [(''invalid_field'', JStr ''Invalid'')] (world0 0) =
      (Inl (Error ''No valid columns found to update''),
       \<lparr>db = 1, calls = [(columnNamesQuery, [])]\<rparr>)
   \<and> insertProperty (stub_pool [''property_name'', ''address''] []) [] (world0 0) =
      (Inl (Error ''No valid columns found to insert''),
       \<lparr>db = 1, calls = [(columnNamesQuery, [])]\<rparr>)
   \<and> updateProperty (stub_pool [''property_name'', ''address''] []) (JStr ''1'') [] (world0 0) =
      (Inl (Error ''No valid columns found to update''),
       \<lparr>db = 1, calls = [(columnNamesQuery, [])]\<rparr>)"
proof -
  let ?pool = "stub_pool [''property_name'', ''address''] []"
  let ?rs = "map (\<lambda>c. [(''column_name'', JStr c)]) [''property_name'', ''address'']"
  have h1: "?pool (db (world0 0)) columnNamesQuery [] = (Inr ?rs, 1)"
    by (simp add: stub_columns world0_def)
  have n: "JStr ''invalid_field'' \<notin> set (column_names ?rs)"
    by (simp add: column_names_def obj_get_def)
  have h2: "\<forall>k \<in> set (Object_keys [(''invalid_field'', JStr ''Invalid'')]).
      JStr k \<notin> set (column_names ?rs)"
    using n by (simp add: Object_keys_def)
  have h3: "\<forall>k \<in> set (Object_keys ([] :: jsval obj)). JStr k \<notin> set (column_names ?rs)"
    by (simp add: Object_keys_def)
  from no_valid_columns_one_catalog_call
      [where pool = ?pool and w = "world0 0" and ident = "JStr ''1''", OF h1 h2]
    no_valid_columns_one_catalog_call
      [where pool = ?pool and w = "world0 0" and ident = "JStr ''1''", OF h1 h3] h1 n
  show ?thesis by (auto simp add: world0_def)
qed

text \<open>
  C4, as stated, asks for zero database calls. With the test suite's columns and the input
  \<^verbatim>\<open>{invalid_field: 'Invalid'}\<close> both operations fail as described, but the log of
  \<^verbatim>\<open>pool.query\<close> holds one call: the column-name query of
  \<^verbatim>\<open>getTableColumnsNames\<close>.
\<close>

theorem no_valid_columns_issues_a_call:
  "insertProperty (stub_pool [''property_name'', ''address''] [])
        [(''invalid_field'', JStr ''Invalid'')] (world0 0) =
      (Inl (Error ''No valid columns found to insert''),
       \<lparr>db = 1, calls = [(columnNamesQuery, [])]\<rparr>)
   \<and> updateProperty (stub_pool [''property_name'', ''address''] []) (JStr ''1'')
        [(''invalid_field'', JStr ''Invalid'')] (world0 0) =
      (Inl (Error ''No valid columns found to update''),
       \<lparr>db = 1, calls = [(columnNamesQuery, [])]\<rparr>)
   \<and> calls (world0 (0::nat)) = []
   \<and> length (calls (snd (insertProperty (stub_pool [''property_name'', ''address''] [])
        [(''invalid_field'', JStr ''Invalid'')] (world0 0)))) = 1
   \<and> length (calls (snd (updateProperty (stub_pool [''property_name'', ''address''] []) (JStr ''1'')
        [(''invalid_field'', JStr ''Invalid'')] (world0 0)))) = 1"
  by (simp add: insertProperty_def updateProperty_def getTableColumnsNames_def pool_query_def
      stub_columns world0_def column_names_def obj_get_def copy_valid_columns_def Object_keys_def)


text \<open>
  C5: when the column-name query succeeds, \<^verbatim>\<open>addColumn(name, type)\<close> on a name that is
  among the current columns fails with the \<^verbatim>\<open>already exists\<close> error, and the only call
  is the column-name query: no DDL is issued, and on the catalog the database is unchanged.
  Only when the name is absent is the ADD COLUMN builder consulted, and its statement is
  executed (when the type is valid).
\<close>

theorem addColumn_existing_rejected:
  assumes "pool (db w) columnNamesQuery [] = (Inr rs, d1)"
  shows "addColumn pool columnName columnType w =
      (if JStr columnName \<in> set (column_names rs)
       then (Inl (Error (''Column '' @ [CHR 0x27] @ columnName @ [CHR 0x27] @
                    '' already exists in the property_data table.'')),
             \<lparr>db = d1, calls = calls w @ [(columnNamesQuery, [])]\<rparr>)
       else (case buildAddColumnQuery columnName columnType of
               Inl e \<Rightarrow> (Inl e, \<lparr>db = d1, calls = calls w @ [(columnNamesQuery, [])]\<rparr>)
             | Inr q \<Rightarrow>
                 (case pool d1 q [] of
                    (r, d2) \<Rightarrow>
                      (case r of Inl e \<Rightarrow> Inl e | Inr _ \<Rightarrow> Inr (),
                       \<lparr>db = d2, calls = calls w @ [(columnNamesQuery, []), (q, [])]\<rparr>))))
    \<and> (existing \<in> set cs \<longrightarrow>
         addColumn pg_query existing columnType \<lparr>db = Some cs, calls = log\<rparr> =
           (Inl (Error (''Column '' @ [CHR 0x27] @ existing @ [CHR 0x27] @
                  '' already exists in the property_data table.'')),
            \<lparr>db = Some cs, calls = log @ [(columnNamesQuery, [])]\<rparr>))"
proof -
  have names: "getTableColumnsNames pool w =
      (Inr (column_names rs), \<lparr>db = d1, calls = calls w @ [(columnNamesQuery, [])]\<rparr>)"
    using assms by (rule getTableColumnsNames_ok)
  have first: "addColumn pool columnName columnType w =
      (if JStr columnName \<in> set (column_names rs)
       then (Inl (Error (''Column '' @ [CHR 0x27] @ columnName @ [CHR 0x27] @
                    '' already exists in the property_data table.'')),
             \<lparr>db = d1, calls = calls w @ [(columnNamesQuery, [])]\<rparr>)
       else (case buildAddColumnQuery columnName columnType of
               Inl e \<Rightarrow> (Inl e, \<lparr>db = d1, calls = calls w @ [(columnNamesQuery, [])]\<rparr>)
             | Inr q \<Rightarrow>
                 (case pool d1 q [] of
                    (r, d2) \<Rightarrow>
                      (case r of Inl e \<Rightarrow> Inl e | Inr _ \<Rightarrow> Inr (),
                       \<lparr>db = d2, calls = calls w @ [(columnNamesQuery, []), (q, [])]\<rparr>))))"
    by (simp add: addColumn_def names pool_query_def split: sum.splits prod.splits)
  have pg_names: "getTableColumnsNames pg_query \<lparr>db = Some cs, calls = log\<rparr> =
      (Inr (map JStr cs), \<lparr>db = Some cs, calls = log @ [(columnNamesQuery, [])]\<rparr>)"
    by (simp add: getTableColumnsNames_def pool_query_def pg_columns column_names_stub
        catalog_columns_def)
  have second: "existing \<in> set cs \<longrightarrow>
         addColumn pg_query existing columnType \<lparr>db = Some cs, calls = log\<rparr> =
           (Inl (Error (''Column '' @ [CHR 0x27] @ existing @ [CHR 0x27] @
                  '' already exists in the property_data table.'')),
            \<lparr>db = Some cs, calls = log @ [(columnNamesQuery, [])]\<rparr>)"
    by (simp add: addColumn_def pg_names)
  from first second show ?thesis by blast
qed


theorem addColumn_existing_rejected_witness:
  "pg_query (db (world0 (Some created_columns))) columnNamesQuery [] =
     (Inr (map (\<lambda>n. [(''column_name'', JStr n)]) created_columns), Some created_columns)
   \<and> ''status'' \<in> set created_columns
   \<and> addColumn pg_query ''status'' ''integer'' (world0 (Some created_columns)) =
       (Inl (Error ''Column 'status' already exists in the property_data table.''),
        \<lparr>db = Some created_columns, calls = [(columnNamesQuery, [])]\<rparr>)
   \<and> addColumn pg_query ''age'' ''integer'' (world0 (Some created_columns)) =
       (Inr (),
        \<lparr>db = Some (created_columns @ [''age'']),
         calls = [(columnNamesQuery, []),
                  (''ALTER TABLE property_data ADD COLUMN age INTEGER;'', [])]\<rparr>)
   \<and> addColumn pg_query ''age'' ''money'' (world0 (Some created_columns)) =
       (Inl (Error ''Invalid column type''),
        \<lparr>db = Some created_columns, calls = [(columnNamesQuery, [])]\<rparr>)"
proof -
  let ?w = "world0 (Some created_columns)"
  let ?rs = "map (\<lambda>n. [(''column_name'', JStr n)]) created_columns"
  have h: "pg_query (db ?w) columnNamesQuery [] = (Inr ?rs, Some created_columns)"
    by (simp add: pg_columns world0_def catalog_columns_def)
  have st: "''status'' \<in> set created_columns" and age: "''age'' \<notin> set created_columns"
    by (simp_all add: created_columns_def)
  have q: "buildAddColumnQuery ''age'' ''integer'' =
      Inr ''ALTER TABLE property_data ADD COLUMN age INTEGER;''"
    by code_simp
  have bad: "buildAddColumnQuery ''age'' ''money'' = Inl (Error ''Invalid column type'')"
    by code_simp
  have folded: "fold_identifier ''age'' = ''age''"
    by code_simp
  have run: "pg_query (Some created_columns) ''ALTER TABLE property_data ADD COLUMN age INTEGER;'' [] =
      (Inr [], Some (created_columns @ [''age'']))"
    using age
    by (simp add: pg_query_def tableCheckQuery_def createTableQuery_def columnNamesQuery_def
        strip_prefix_def pg_add_column_def folded)
  have absent: "JStr ''age'' \<notin> set (column_names ?rs)"
    and present: "JStr ''status'' \<in> set (column_names ?rs)"
    using age st by (simp_all only: column_names_stub JStr_mem_map not_False_eq_True)
  note general = addColumn_existing_rejected [where pool = pg_query and w = ?w, OF h, THEN conjunct1]
  have "addColumn pg_query ''status'' ''integer'' ?w =
       (Inl (Error ''Column 'status' already exists in the property_data table.''),
        \<lparr>db = Some created_columns, calls = [(columnNamesQuery, [])]\<rparr>)"
    using general [of "''status''" "''integer''"] present by (simp add: world0_def)
  moreover have "addColumn pg_query ''age'' ''integer'' ?w =
       (Inr (),
        \<lparr>db = Some (created_columns @ [''age'']),
         calls = [(columnNamesQuery, []),
                  (''ALTER TABLE property_data ADD COLUMN age INTEGER;'', [])]\<rparr>)"
    using general [of "''age''" "''integer''"] absent by (simp add: world0_def q run)
  moreover have "addColumn pg_query ''age'' ''money'' ?w =
       (Inl (Error ''Invalid column type''),
        \<lparr>db = Some created_columns, calls = [(columnNamesQuery, [])]\<rparr>)"
    using general [of "''age''" "''money''"] absent by (simp add: world0_def bad)
  ultimately show ?thesis using h st by simp
qed


text \<open>
  C8, as the code has it: the update whitelist is the full current column set. Whenever
  \<^verbatim>\<open>id\<close> is among the current columns (the table created by the reconciler has it) and
  the updates object has the key \<^verbatim>\<open>id\<close>, \<^verbatim>\<open>updateProperty\<close> does not filter that key out: the UPDATE that
  is sent has \<^verbatim>\<open>id = $i\<close> in its SET clause, bound to the supplied value, so the row
  identifier can be overwritten; the update handler hands the request body to the model
  as it is.
\<close>

theorem updateProperty_can_overwrite_id:
  assumes "distinct (Object_keys updates)"
    and "pool (db w) columnNamesQuery [] = (Inr rs, d1)"
    and "JStr ''id'' \<in> set (column_names rs)"
    and "(''id'', v) \<in> set updates"
    and "kept = filter (\<lambda>(k, u). JStr k \<in> set (column_names rs) \<and> k \<noteq> ''__proto__'') updates"
  shows "(''id'', v) \<in> set kept
    \<and> calls (snd (updateProperty pool ident updates w)) =
        calls w @ [(columnNamesQuery, []),
          (query (buildUpdateQuery ''property_data'' kept [(''id'', ident)]),
           Object_values kept @ [ident])]
    \<and> query (buildUpdateQuery ''property_data'' kept [(''id'', ident)]) =
        ''UPDATE property_data SET '' @
        join '', '' (map (\<lambda>j. fst (kept ! j) @ '' = $'' @ string_of_nat (j + 1)) [0..<length kept]) @
        '' WHERE id = $'' @ string_of_nat (length kept + 1) @ '' RETURNING *''
    \<and> (\<exists>i. i < length kept \<and> kept ! i = (''id'', v)
          \<and> map (\<lambda>j. fst (kept ! j) @ '' = $'' @ string_of_nat (j + 1)) [0..<length kept] ! i =
              ''id = $'' @ string_of_nat (i + 1)
          \<and> (Object_values kept @ [ident]) ! i = v)
    \<and> snd (handle_updateProperty (updateProperty pool) \<lparr>params = ps, body = updates\<rparr> w) =
        snd (updateProperty pool (param \<lparr>params = ps, body = updates\<rparr> ''id'') updates w)"
proof -
  have endpoint:
    "snd (handle_updateProperty (updateProperty pool) \<lparr>params = ps, body = updates\<rparr> w) =
        snd (updateProperty pool (param \<lparr>params = ps, body = updates\<rparr> ''id'') updates w)"
    by (simp add: handle_updateProperty_def Let_def split: prod.splits sum.splits)
  have mem: "(''id'', v) \<in> set kept"
    using assms(3,4,5) by simp
  then have ne: "kept \<noteq> []" by auto
  have copy: "copy_valid_columns (column_names rs) updates = kept"
    using assms(1,5) by (simp add: copy_valid_columns_filter Object_keys_def)
  have names: "getTableColumnsNames pool w =
      (Inr (column_names rs), \<lparr>db = d1, calls = calls w @ [(columnNamesQuery, [])]\<rparr>)"
    using assms(2) by (rule getTableColumnsNames_ok)
  have bv: "bind_values (buildUpdateQuery ''property_data'' kept [(''id'', ident)]) =
      Object_values kept @ [ident]"
    by (simp add: buildUpdateQuery_def Let_def Object_values_def)
  have log: "calls (snd (updateProperty pool ident updates w)) =
        calls w @ [(columnNamesQuery, []),
          (query (buildUpdateQuery ''property_data'' kept [(''id'', ident)]),
           Object_values kept @ [ident])]"
    using ne
    by (auto simp add: updateProperty_def names copy bv Object_keys_def pool_query_def Let_def
        split: sum.splits prod.splits)
  have shape: "query (buildUpdateQuery ''property_data'' kept [(''id'', ident)]) =
        ''UPDATE property_data SET '' @
        join '', '' (map (\<lambda>j. fst (kept ! j) @ '' = $'' @ string_of_nat (j + 1)) [0..<length kept]) @
        '' WHERE id = $'' @ string_of_nat (length kept + 1) @ '' RETURNING *''"
    by (simp add: buildUpdateQuery_def Let_def Object_keys_def mapi_map_upt placeholder_def
        mapi_single)
  from mem obtain i where i: "i < length kept" "kept ! i = (''id'', v)"
    by (auto simp: in_set_conv_nth)
  then have "map (\<lambda>j. fst (kept ! j) @ '' = $'' @ string_of_nat (j + 1)) [0..<length kept] ! i =
              ''id = $'' @ string_of_nat (i + 1)"
    and "(Object_values kept @ [ident]) ! i = v"
    by (simp_all add: Object_values_def nth_append)
  with i mem log shape endpoint show ?thesis by blast
qed

theorem updateProperty_can_overwrite_id_witness:
  "distinct (Object_keys [(''id'', JNum 99), (''name'', JStr ''X'')])
   \<and> JStr ''id'' \<in> set (map JStr [''id'', ''name''])
   \<and> calls (snd (updateProperty (stub_pool [''id'', ''name''] []) (JStr ''7'')
        [(''id'', JNum 99), (''name'', JStr ''X'')] (world0 0))) =
       [(columnNamesQuery, []),
        (''UPDATE property_data SET id = $1, name = $2 WHERE id = $3 RETURNING *'',
         [JNum 99, JStr ''X'', JStr ''7''])]"
proof -
  let ?up = "[(''id'', JNum 99), (''name'', JStr ''X'')]"
  let ?pool = "stub_pool [''id'', ''name''] []"
  let ?rs = "map (\<lambda>c. [(''column_name'', JStr c)]) [''id'', ''name'']"
  have h1: "distinct (Object_keys ?up)"
    by (simp add: Object_keys_def)
  have h2: "?pool (db (world0 0)) columnNamesQuery [] = (Inr ?rs, 1)"
    by (simp add: stub_columns world0_def)
  have h3: "JStr ''id'' \<in> set (column_names ?rs)"
    by (simp add: column_names_def obj_get_def)
  have h4: "(''id'', JNum 99) \<in> set ?up"
    by simp
  have h5: "?up = filter (\<lambda>(k, u). JStr k \<in> set (column_names ?rs) \<and> k \<noteq> ''__proto__'') ?up"
    by (simp add: column_names_def obj_get_def)
  have q: "query (buildUpdateQuery ''property_data'' ?up [(''id'', JStr ''7'')]) =
      ''UPDATE property_data SET id = $1, name = $2 WHERE id = $3 RETURNING *''"
    by (simp add: buildUpdateQuery_def Object_keys_def mapi_def placeholder_def
        string_of_nat.simps digit_char_def)
  note inst = updateProperty_can_overwrite_id
      [where pool = ?pool and w = "world0 0" and ident = "JStr ''7''", OF h1 h2 h3 h4 h5]
  from inst [THEN conjunct2, THEN conjunct1] h1
  show ?thesis
    by (simp add: q world0_def Object_values_def)
qed

text \<open>
  C8, as stated, rests on the table always having the \<^verbatim>\<open>id\<close> column. The repository's
  own \<^verbatim>\<open>deleteColumn('id')\<close> drops it from the table the reconciler created. On that
  table the key \<^verbatim>\<open>id\<close> is filtered out like any unknown key: the UPDATE for
  \<^verbatim>\<open>{id: 99, property_name: 'X'}\<close> sets \<^verbatim>\<open>property_name\<close> only, and \<^verbatim>\<open>{id: 99}\<close> alone
  fails with \<^verbatim>\<open>No valid columns found to update\<close>.
\<close>

theorem updateProperty_filters_id_without_column:
  "deleteColumn pg_query ''id'' (world0 (Some created_columns)) =
     (Inr (),
      \<lparr>db = Some [''property_name'', ''address'', ''total_area_in_sqft'', ''price_in_cr'',
                  ''listed_date'', ''status'', ''total_earnings''],
       calls = [(''ALTER TABLE property_data DROP COLUMN id;'', [])]\<rparr>)
   \<and> calls (snd (updateProperty pg_query (JStr ''7'')
          [(''id'', JNum 99), (''property_name'', JStr ''X'')]
          (world0 (Some [''property_name'', ''address'', ''total_area_in_sqft'', ''price_in_cr'',
                  ''listed_date'', ''status'', ''total_earnings''])))) =
       [(columnNamesQuery, []),
        (''UPDATE property_data SET property_name = $1 WHERE id = $2 RETURNING *'',
         [JStr ''X'', JStr ''7''])]
   \<and> updateProperty pg_query (JStr ''7'') [(''id'', JNum 99)]
          (world0 (Some [''property_name'', ''address'', ''total_area_in_sqft'', ''price_in_cr'',
                  ''listed_date'', ''status'', ''total_earnings''])) =
       (Inl (Error ''No valid columns found to update''),
        \<lparr>db = Some [''property_name'', ''address'', ''total_area_in_sqft'', ''price_in_cr'',
                  ''listed_date'', ''status'', ''total_earnings''],
         calls = [(columnNamesQuery, [])]\<rparr>)"
  by code_simp

section \<open>The handlers: status codes\<close>




section \<open>Schema reconciliation\<close>

lemma loop_nothing_missing:
  "\<forall>c \<in> set reqs. JStr (column_name c) \<in> set ex \<Longrightarrow> ensureColumns_loop pool ex reqs w = w"
  by (induction reqs arbitrary: w) simp_all

lemma not_missing_present:
  "c \<in> set reqs \<Longrightarrow> c \<notin> set (missing (map JStr cs) reqs) \<Longrightarrow> column_name c \<in> set cs"
  by (auto simp: missing_def)

lemma missing_absent:
  "c \<in> set (missing (map JStr cs) reqs) \<Longrightarrow> column_name c \<notin> set cs"
  by (auto simp: missing_def)

lemma missing_subset: "set (missing ex reqs) \<subseteq> set reqs"
  by (auto simp: missing_def)

lemma missing_Cons_in:
  "JStr (column_name c) \<in> set ex \<Longrightarrow> missing ex (c # reqs) = missing ex reqs"
  by (simp add: missing_def)

lemma missing_Cons_out:
  "JStr (column_name c) \<notin> set ex \<Longrightarrow> missing ex (c # reqs) = c # missing ex reqs"
  by (simp add: missing_def)

lemma required_created:
  "c \<in> set requiredColumns \<Longrightarrow> column_name c \<in> set created_columns"
  by (auto simp: requiredColumns_def created_columns_def)

lemma required_distinct: "distinct (map column_name requiredColumns)"
  by (simp add: requiredColumns_def)

lemma pool_query_calls: "calls (snd (pool_query pool t v w)) = calls w @ [(t, v)]"
  by (simp add: pool_query_def split: prod.splits)

lemma schema_addColumn_calls:
  "calls (schema_addColumn pool c w) = calls w @ [(addColumnText c, [])]"
  by (simp add: schema_addColumn_def pool_query_def split: prod.splits sum.splits)

lemma loop_calls:
  "calls (ensureColumns_loop pool ex reqs w) =
     calls w @ map (\<lambda>c. (addColumnText c, [])) (missing ex reqs)"
  by (induction reqs arbitrary: w) (simp_all add: missing_def schema_addColumn_calls)

lemma ensureColumns_calls:
  "\<exists>new. calls (snd (ensureColumns pool w)) = calls w @ new
     \<and> fst ` set new \<subseteq> {columnNamesQuery} \<union> addColumnText ` set requiredColumns"
proof (cases "schema_getTableColumns pool w")
  case (Pair r w1)
  have w1: "calls w1 = calls w @ [(columnNamesQuery, [])]"
    using Pair pool_query_calls [of pool columnNamesQuery "[]" w]
    by (auto simp add: schema_getTableColumns_def split: prod.splits sum.splits)
  show ?thesis
  proof (cases r)
    case (Inl e)
    with Pair w1 show ?thesis by (simp add: ensureColumns_def)
  next
    case (Inr ex)
    have "calls (snd (ensureColumns pool w)) =
        calls w @ ((columnNamesQuery, []) # map (\<lambda>c. (addColumnText c, [])) (missing ex requiredColumns))"
      using Pair Inr w1 by (simp add: ensureColumns_def loop_calls)
    moreover have "fst ` set ((columnNamesQuery, []) #
          map (\<lambda>c. (addColumnText c, [])) (missing ex requiredColumns))
        \<subseteq> {columnNamesQuery} \<union> addColumnText ` set requiredColumns"
      by (auto simp: missing_def)
    ultimately show ?thesis by blast
  qed
qed

lemma ensureTableSchema_calls:
  "\<exists>new. calls (ensureTableSchema pool w) = calls w @ new
     \<and> fst ` set new \<subseteq> {tableCheckQuery, createTableQuery, columnNamesQuery}
           \<union> addColumnText ` set requiredColumns"
proof (cases "pool_query pool tableCheckQuery [] w")
  case (Pair r w1)
  have w1: "calls w1 = calls w @ [(tableCheckQuery, [])]"
    using Pair pool_query_calls [of pool tableCheckQuery "[]" w] by simp
  let ?ok = "\<lambda>new. fst ` set new \<subseteq> {tableCheckQuery, createTableQuery, columnNamesQuery}
           \<union> addColumnText ` set requiredColumns"
  have stop: "\<exists>new. calls w1 = calls w @ new \<and> ?ok new"
    using w1 by simp
  have cols: "\<exists>new. calls (snd (ensureColumns pool w1)) = calls w @ new \<and> ?ok new"
  proof -
    from ensureColumns_calls [of pool w1] obtain new where
      "calls (snd (ensureColumns pool w1)) = calls w1 @ new"
      "fst ` set new \<subseteq> {columnNamesQuery} \<union> addColumnText ` set requiredColumns"
      by blast
    then have "calls (snd (ensureColumns pool w1)) = calls w @ ((tableCheckQuery, []) # new)"
      and "?ok ((tableCheckQuery, []) # new)"
      using w1 by auto
    then show ?thesis by blast
  qed
  have created: "\<exists>new. calls (case pool_query pool createTableQuery [] w1 of
                  (Inl e, w2) \<Rightarrow> w2
                | (Inr _, w2) \<Rightarrow> snd (ensureColumns pool w2)) = calls w @ new \<and> ?ok new"
  proof (cases "pool_query pool createTableQuery [] w1")
    case (Pair r2 w2)
    have w2: "calls w2 = calls w @ [(tableCheckQuery, []), (createTableQuery, [])]"
      using Pair pool_query_calls [of pool createTableQuery "[]" w1] w1 by simp
    show ?thesis
    proof (cases r2)
      case (Inl e)
      with Pair w2 show ?thesis by simp
    next
      case (Inr rows)
      from ensureColumns_calls [of pool w2] obtain new where
        "calls (snd (ensureColumns pool w2)) = calls w2 @ new"
        "fst ` set new \<subseteq> {columnNamesQuery} \<union> addColumnText ` set requiredColumns"
        by blast
      then have "calls (snd (ensureColumns pool w2)) =
          calls w @ ((tableCheckQuery, []) # (createTableQuery, []) # new)"
        and "?ok ((tableCheckQuery, []) # (createTableQuery, []) # new)"
        using w2 by auto
      with Pair Inr show ?thesis by auto
    qed
  qed
  show ?thesis
  proof (cases r)
    case (Inl e)
    with Pair stop show ?thesis by (simp add: ensureTableSchema_def)
  next
    case (Inr rows)
    show ?thesis
    proof (cases "first_row rows")
      case None
      with Pair Inr stop show ?thesis by (simp add: ensureTableSchema_def)
    next
      case (Some row)
      show ?thesis
      proof (cases "truthy (obj_get row ''exists'')")
        case True
        with Pair Inr Some cols show ?thesis by (simp add: ensureTableSchema_def)
      next
        case False
        with Pair Inr Some created show ?thesis by (simp add: ensureTableSchema_def)
      qed
    qed
  qed
qed

lemma reconciler_text_not_destructive:
  assumes "t \<in> {tableCheckQuery, createTableQuery, columnNamesQuery}
             \<union> addColumnText ` set requiredColumns"
  shows "t \<noteq> buildDeleteColumnQuery n \<and> t \<noteq> buildRenameColumnQuery a b"
proof -
  have "addColumnText c \<noteq> buildDeleteColumnQuery n \<and> addColumnText c \<noteq> buildRenameColumnQuery a b"
    for c
    by (simp add: addColumnText_def buildDeleteColumnQuery_def buildRenameColumnQuery_def)
  moreover have "tableCheckQuery \<noteq> buildDeleteColumnQuery n \<and> tableCheckQuery \<noteq> buildRenameColumnQuery a b"
    by (simp add: tableCheckQuery_def buildDeleteColumnQuery_def buildRenameColumnQuery_def)
  moreover have "createTableQuery \<noteq> buildDeleteColumnQuery n \<and> createTableQuery \<noteq> buildRenameColumnQuery a b"
    by (simp add: createTableQuery_def buildDeleteColumnQuery_def buildRenameColumnQuery_def)
  moreover have "columnNamesQuery \<noteq> buildDeleteColumnQuery n \<and> columnNamesQuery \<noteq> buildRenameColumnQuery a b"
    by (simp add: columnNamesQuery_def buildDeleteColumnQuery_def buildRenameColumnQuery_def)
  ultimately show ?thesis using assms by auto
qed

lemma ensureTableSchema_harmless:
  "\<exists>new. calls (ensureTableSchema pool w) = calls w @ new
         \<and> (\<forall>t \<in> fst ` set new. \<forall>n a b.
               t \<noteq> buildDeleteColumnQuery n \<and> t \<noteq> buildRenameColumnQuery a b)"
proof -
  from ensureTableSchema_calls [of pool w] obtain new where
    new: "calls (ensureTableSchema pool w) = calls w @ new"
    and sub: "fst ` set new \<subseteq> {tableCheckQuery, createTableQuery, columnNamesQuery}
           \<union> addColumnText ` set requiredColumns"
    by blast
  have "\<forall>t \<in> fst ` set new. \<forall>n a b.
               t \<noteq> buildDeleteColumnQuery n \<and> t \<noteq> buildRenameColumnQuery a b"
  proof (intro ballI allI)
    fix t n a b
    assume "t \<in> fst ` set new"
    with sub have "t \<in> {tableCheckQuery, createTableQuery, columnNamesQuery}
           \<union> addColumnText ` set requiredColumns"
      by (rule subsetD)
    then show "t \<noteq> buildDeleteColumnQuery n \<and> t \<noteq> buildRenameColumnQuery a b"
      by (rule reconciler_text_not_destructive)
  qed
  with new show ?thesis by (intro exI conjI)
qed

subsection \<open>On a database that accepts the reconciler\<close>

lemma accepts_check:
  assumes "accepts_reconciler pool cat"
  obtains rs d' r where "pool d tableCheckQuery [] = (Inr rs, d')" and "cat d' = cat d"
    and "first_row rs = Some r" and "truthy (obj_get r ''exists'') = (cat d \<noteq> None)"
  using assms unfolding accepts_reconciler_def by blast

lemma accepts_create:
  assumes "accepts_reconciler pool cat" and "cat d = None"
  obtains rs d' where "pool d createTableQuery [] = (Inr rs, d')"
    and "cat d' = Some created_columns"
  using assms unfolding accepts_reconciler_def by blast

lemma accepts_columns:
  assumes "accepts_reconciler pool cat"
  obtains rs d' where "pool d columnNamesQuery [] = (Inr rs, d')" and "cat d' = cat d"
    and "column_names rs = map JStr (catalog_columns (cat d))"
  using assms unfolding accepts_reconciler_def by blast

lemma accepts_add:
  assumes "accepts_reconciler pool cat" and "c \<in> set requiredColumns" and "cat d = Some cs"
    and "column_name c \<notin> set cs"
  obtains rs d' where "pool d (addColumnText c) [] = (Inr rs, d')"
    and "cat d' = Some (cs @ [column_name c])"
  using assms unfolding accepts_reconciler_def by blast

lemma schema_addColumn_accepted:
  assumes "accepts_reconciler pool cat" and "c \<in> set requiredColumns" and "cat (db w) = Some cs"
    and "column_name c \<notin> set cs"
  shows "cat (db (schema_addColumn pool c w)) = Some (cs @ [column_name c])"
proof -
  from accepts_add [OF assms] obtain rs d' where
    "pool (db w) (addColumnText c) [] = (Inr rs, d')" and "cat d' = Some (cs @ [column_name c])"
    by blast
  then show ?thesis by (simp add: schema_addColumn_def pool_query_def)
qed

lemma loop_accepted:
  assumes "accepts_reconciler pool cat"
    and "set reqs \<subseteq> set requiredColumns"
    and "distinct (map column_name reqs)"
    and "cat (db w) = Some cs"
    and "column_name ` set (missing ex reqs) \<inter> set cs = {}"
  shows "cat (db (ensureColumns_loop pool ex reqs w)) =
      Some (cs @ map column_name (missing ex reqs))"
  using assms(2-5)
proof (induction reqs arbitrary: w cs)
  case Nil
  then show ?case by (simp add: missing_def)
next
  case (Cons c reqs)
  from Cons.prems have sub: "set reqs \<subseteq> set requiredColumns" and req: "c \<in> set requiredColumns"
    and dist: "distinct (map column_name reqs)" and fresh: "column_name c \<notin> column_name ` set reqs"
    by auto
  show ?case
  proof (cases "JStr (column_name c) \<in> set ex")
    case True
    note m = missing_Cons_in [OF True]
    have disj: "column_name ` set (missing ex reqs) \<inter> set cs = {}"
      using Cons.prems(4) unfolding m .
    have "ensureColumns_loop pool ex (c # reqs) w = ensureColumns_loop pool ex reqs w"
      using True by simp
    with Cons.IH [OF sub dist Cons.prems(3) disj] show ?thesis
      unfolding m by simp
  next
    case False
    note m = missing_Cons_out [OF False]
    from Cons.prems(4) have absent: "column_name c \<notin> set cs"
      and disj: "column_name ` set (missing ex reqs) \<inter> set cs = {}"
      unfolding m by auto
    let ?w' = "schema_addColumn pool c w"
    have added: "cat (db ?w') = Some (cs @ [column_name c])"
      using assms(1) req Cons.prems(3) absent by (rule schema_addColumn_accepted)
    have "column_name c \<notin> column_name ` set (missing ex reqs)"
      using fresh missing_subset [of ex reqs] by blast
    with disj have disj': "column_name ` set (missing ex reqs) \<inter> set (cs @ [column_name c]) = {}"
      by auto
    have "ensureColumns_loop pool ex (c # reqs) w = ensureColumns_loop pool ex reqs ?w'"
      using False by simp
    with Cons.IH [OF sub dist added disj'] show ?thesis
      unfolding m by simp
  qed
qed

lemma run_present:
  assumes "accepts_reconciler pool cat" and "cat (db w) = Some cs"
  shows "cat (db (ensureTableSchema pool w)) =
      Some (cs @ map column_name (missing (map JStr cs) requiredColumns))
    \<and> calls (ensureTableSchema pool w) =
      calls w @ [(tableCheckQuery, []), (columnNamesQuery, [])] @
        map (\<lambda>c. (addColumnText c, [])) (missing (map JStr cs) requiredColumns)"
proof -
  from accepts_check [OF assms(1), of "db w"] obtain rs d1 r where
    check: "pool (db w) tableCheckQuery [] = (Inr rs, d1)" and c1: "cat d1 = cat (db w)"
    and row: "first_row rs = Some r" and ex: "truthy (obj_get r ''exists'') = (cat (db w) \<noteq> None)"
    by blast
  let ?w1 = "\<lparr>db = d1, calls = calls w @ [(tableCheckQuery, [])]\<rparr>"
  from accepts_columns [OF assms(1), of d1] obtain rs2 d2 where
    cols: "pool d1 columnNamesQuery [] = (Inr rs2, d2)" and c2: "cat d2 = cat d1"
    and names: "column_names rs2 = map JStr (catalog_columns (cat d1))"
    by blast
  let ?w2 = "\<lparr>db = d2, calls = calls w @ [(tableCheckQuery, []), (columnNamesQuery, [])]\<rparr>"
  have ex_cols: "column_names rs2 = map JStr cs"
    using names c1 assms(2) by (simp add: catalog_columns_def)
  have start: "cat (db ?w2) = Some cs"
    using c2 c1 assms(2) by simp
  have run: "ensureTableSchema pool w =
      ensureColumns_loop pool (map JStr cs) requiredColumns ?w2"
    using check row ex assms(2) cols ex_cols
    by (simp add: ensureTableSchema_def pool_query_def ensureColumns_def
        schema_getTableColumns_def)
  have disj: "column_name ` set (missing (map JStr cs) requiredColumns) \<inter> set cs = {}"
    using missing_absent by fastforce
  have "cat (db (ensureColumns_loop pool (map JStr cs) requiredColumns ?w2)) =
      Some (cs @ map column_name (missing (map JStr cs) requiredColumns))"
    using assms(1) subset_refl required_distinct start disj by (rule loop_accepted)
  then show ?thesis
    unfolding run by (simp add: loop_calls)
qed

lemma run_absent:
  assumes "accepts_reconciler pool cat" and "cat (db w) = None"
  shows "cat (db (ensureTableSchema pool w)) = Some created_columns
    \<and> calls (ensureTableSchema pool w) =
      calls w @ [(tableCheckQuery, []), (createTableQuery, []), (columnNamesQuery, [])]"
proof -
  from accepts_check [OF assms(1), of "db w"] obtain rs d1 r where
    check: "pool (db w) tableCheckQuery [] = (Inr rs, d1)" and c1: "cat d1 = cat (db w)"
    and row: "first_row rs = Some r" and ex: "truthy (obj_get r ''exists'') = (cat (db w) \<noteq> None)"
    by blast
  from c1 assms(2) have "cat d1 = None" by simp
  from accepts_create [OF assms(1) this] obtain rs1 d2 where
    create: "pool d1 createTableQuery [] = (Inr rs1, d2)" and c2: "cat d2 = Some created_columns"
    by blast
  from accepts_columns [OF assms(1), of d2] obtain rs2 d3 where
    cols: "pool d2 columnNamesQuery [] = (Inr rs2, d3)" and c3: "cat d3 = cat d2"
    and names: "column_names rs2 = map JStr (catalog_columns (cat d2))"
    by blast
  let ?w3 = "\<lparr>db = d3,
      calls = calls w @ [(tableCheckQuery, []), (createTableQuery, []), (columnNamesQuery, [])]\<rparr>"
  have ex_cols: "column_names rs2 = map JStr created_columns"
    using names c2 by (simp add: catalog_columns_def)
  have "\<forall>c \<in> set requiredColumns. JStr (column_name c) \<in> set (map JStr created_columns)"
    using required_created by auto
  then have loop: "ensureColumns_loop pool (map JStr created_columns) requiredColumns ?w3 = ?w3"
    by (rule loop_nothing_missing)
  have run: "ensureTableSchema pool w = ?w3"
    using check row ex assms(2) create cols ex_cols loop
    by (simp add: ensureTableSchema_def pool_query_def ensureColumns_def
        schema_getTableColumns_def)
  show ?thesis
    unfolding run using c3 c2 by simp
qed

lemma run_settled:
  assumes "accepts_reconciler pool cat" and "cat (db w) = Some cs"
    and "column_name ` set requiredColumns \<subseteq> set cs"
  shows "cat (db (ensureTableSchema pool w)) = Some cs
    \<and> calls (ensureTableSchema pool w) =
      calls w @ [(tableCheckQuery, []), (columnNamesQuery, [])]"
proof -
  have "missing (map JStr cs) requiredColumns = []"
    using assms(3) by (auto simp: missing_def filter_empty_conv)
  with run_present [OF assms(1,2)] show ?thesis by simp
qed

lemma baseline_after_run:
  "column_name ` set requiredColumns \<subseteq>
     set (cs @ map column_name (missing (map JStr cs) requiredColumns))"
proof
  fix n assume "n \<in> column_name ` set requiredColumns"
  then obtain c where c: "c \<in> set requiredColumns" "n = column_name c" by blast
  show "n \<in> set (cs @ map column_name (missing (map JStr cs) requiredColumns))"
  proof (cases "c \<in> set (missing (map JStr cs) requiredColumns)")
    case True
    with c show ?thesis by simp
  next
    case False
    from not_missing_present [OF c(1) False] c show ?thesis by simp
  qed
qed

subsection \<open>The catalog database accepts the reconciler\<close>

lemma pg_check:
  "pg_query cat tableCheckQuery [] = (Inr [[(''exists'', JBool (cat \<noteq> None))]], cat)"
  by (simp add: pg_query_def)

lemma pg_create: "pg_query None createTableQuery [] = (Inr [], Some created_columns)"
  by (simp add: pg_query_def tableCheckQuery_def createTableQuery_def)

lemma strip_prefix_append: "strip_prefix p (p @ s) = Some s"
  by (simp add: strip_prefix_def)

lemma pg_add_text:
  assumes "CHR '' '' \<notin> set (column_name c)"
  shows "pg_query cat (addColumnText c) [] =
      pg_add_column (fold_identifier (column_name c)) cat"
proof -
  let ?rest = "column_name c @ '' '' @ data_type c @ '';''"
  have shape: "addColumnText c = ''ALTER TABLE property_data ADD COLUMN '' @ ?rest"
    by (simp add: addColumnText_def)
  have sp: "strip_prefix ''ALTER TABLE property_data ADD COLUMN '' (addColumnText c) = Some ?rest"
    unfolding shape by (rule strip_prefix_append)
  have tw: "takeWhile (\<lambda>x. x \<noteq> CHR '' '') ?rest = column_name c"
    using assms by (auto simp add: takeWhile_tail)
  have ne: "addColumnText c \<noteq> tableCheckQuery" "addColumnText c \<noteq> createTableQuery"
    "addColumnText c \<noteq> columnNamesQuery"
    by (simp_all add: addColumnText_def tableCheckQuery_def createTableQuery_def
        columnNamesQuery_def)
  show ?thesis
    by (simp only: pg_query_def ne sp tw if_False option.case)
qed

lemma required_no_space: "c \<in> set requiredColumns \<Longrightarrow> CHR '' '' \<notin> set (column_name c)"
  by (auto simp: requiredColumns_def)

lemma required_folded:
  "c \<in> set requiredColumns \<Longrightarrow> fold_identifier (column_name c) = column_name c"
  by (auto simp: requiredColumns_def fold_identifier_def to_lower_char_def)

lemma pg_accepts: "accepts_reconciler pg_query (\<lambda>cat. cat)"
  unfolding accepts_reconciler_def
proof (intro conjI allI impI)
  fix d :: catalog
  show "\<exists>rs d' r. pg_query d tableCheckQuery [] = (Inr rs, d') \<and> d' = d
            \<and> first_row rs = Some r \<and> truthy (obj_get r ''exists'') = (d \<noteq> None)"
    by (simp add: pg_check first_row_def obj_get_def truthy_def)
next
  fix d :: catalog
  assume "d = None"
  then show "\<exists>rs d'. pg_query d createTableQuery [] = (Inr rs, d') \<and> d' = Some created_columns"
    by (simp add: pg_create)
next
  fix d :: catalog
  show "\<exists>rs d'. pg_query d columnNamesQuery [] = (Inr rs, d') \<and> d' = d
            \<and> column_names rs = map JStr (catalog_columns d)"
    by (simp add: pg_columns column_names_stub)
next
  fix d :: catalog and c cs
  assume "c \<in> set requiredColumns" and "d = Some cs" and "column_name c \<notin> set cs"
  then show "\<exists>rs d'. pg_query d (addColumnText c) [] = (Inr rs, d')
             \<and> d' = Some (cs @ [column_name c])"
    by (simp add: pg_add_text [OF required_no_space] required_folded pg_add_column_def)
qed

text \<open>
  C7, as the code has it: on a database that accepts the reconciler, whatever its state,
  one run of \<^verbatim>\<open>ensureTableSchema\<close> leaves the table present with every baseline column;
  the columns that were there stay where they were (the new catalog extends the old one),
  the identifier is there when the run created the table or when it was there before, and
  a second run immediately afterwards changes nothing and issues only the existence check
  and the column-name query: no CREATE TABLE and no ADD COLUMN. Against any pool
  whatsoever, no statement the reconciler issues is a DROP COLUMN or a RENAME COLUMN
  statement.
\<close>

theorem ensureTableSchema_idempotent:
  assumes "accepts_reconciler pool cat"
  shows "(\<exists>cs. cat (db (ensureTableSchema pool w)) = Some cs
      \<and> column_name ` set requiredColumns \<subseteq> set cs
      \<and> prefix (catalog_columns (cat (db w))) cs
      \<and> (cat (db w) = None \<longrightarrow> cs = created_columns \<and> ''id'' \<in> set cs)
      \<and> (''id'' \<in> set (catalog_columns (cat (db w))) \<longrightarrow> ''id'' \<in> set cs)
      \<and> cat (db (ensureTableSchema pool (ensureTableSchema pool w))) = Some cs
      \<and> calls (ensureTableSchema pool (ensureTableSchema pool w)) =
          calls (ensureTableSchema pool w) @ [(tableCheckQuery, []), (columnNamesQuery, [])])
   \<and> (\<exists>new. calls (ensureTableSchema any_pool v) = calls v @ new
         \<and> (\<forall>t \<in> fst ` set new. \<forall>n a b.
               t \<noteq> buildDeleteColumnQuery n \<and> t \<noteq> buildRenameColumnQuery a b))"
proof (rule conjI)
  show "\<exists>new. calls (ensureTableSchema any_pool v) = calls v @ new
         \<and> (\<forall>t \<in> fst ` set new. \<forall>n a b.
               t \<noteq> buildDeleteColumnQuery n \<and> t \<noteq> buildRenameColumnQuery a b)"
    by (rule ensureTableSchema_harmless)
next
  let ?w1 = "ensureTableSchema pool w"
  show "\<exists>cs. cat (db ?w1) = Some cs
      \<and> column_name ` set requiredColumns \<subseteq> set cs
      \<and> prefix (catalog_columns (cat (db w))) cs
      \<and> (cat (db w) = None \<longrightarrow> cs = created_columns \<and> ''id'' \<in> set cs)
      \<and> (''id'' \<in> set (catalog_columns (cat (db w))) \<longrightarrow> ''id'' \<in> set cs)
      \<and> cat (db (ensureTableSchema pool ?w1)) = Some cs
      \<and> calls (ensureTableSchema pool ?w1) =
          calls ?w1 @ [(tableCheckQuery, []), (columnNamesQuery, [])]"
  proof (cases "cat (db w)")
    case None
    have first: "cat (db ?w1) = Some created_columns"
      using run_absent [OF assms None] by simp
    have base: "column_name ` set requiredColumns \<subseteq> set created_columns"
      using required_created by auto
    have ident: "''id'' \<in> set created_columns"
      by (simp add: created_columns_def)
    note again = run_settled [OF assms first base]
    have empty: "catalog_columns (cat (db w)) = []"
      using None by (simp add: catalog_columns_def)
    from first base ident again show ?thesis
      unfolding empty by (intro exI [of _ created_columns]) simp
  next
    case (Some old)
    let ?cs = "old @ map column_name (missing (map JStr old) requiredColumns)"
    have first: "cat (db ?w1) = Some ?cs"
      using run_present [OF assms Some] by simp
    have base: "column_name ` set requiredColumns \<subseteq> set ?cs"
      by (rule baseline_after_run)
    note again = run_settled [OF assms first base]
    have cols: "catalog_columns (cat (db w)) = old"
      using Some by (simp add: catalog_columns_def)
    have keep: "prefix old ?cs" and ident: "''id'' \<in> set old \<longrightarrow> ''id'' \<in> set ?cs"
      by simp_all
    from first base again keep ident Some show ?thesis
      unfolding cols by (intro exI [of _ ?cs]) simp
  qed
qed

theorem ensureTableSchema_idempotent_witness:
  "accepts_reconciler pg_query (\<lambda>cat. cat)
   \<and> db (ensureTableSchema pg_query (world0 None)) = Some created_columns
   \<and> ''id'' \<in> set created_columns
   \<and> column_name ` set requiredColumns \<subseteq> set created_columns
   \<and> calls (ensureTableSchema pg_query (world0 None)) =
       [(tableCheckQuery, []), (createTableQuery, []), (columnNamesQuery, [])]
   \<and> db (ensureTableSchema pg_query (ensureTableSchema pg_query (world0 None))) =
       Some created_columns
   \<and> calls (ensureTableSchema pg_query (ensureTableSchema pg_query (world0 None))) =
       [(tableCheckQuery, []), (createTableQuery, []), (columnNamesQuery, []),
        (tableCheckQuery, []), (columnNamesQuery, [])]"
proof -
  have start: "db (world0 (None :: catalog)) = None"
    by (simp add: world0_def)
  note first = run_absent
    [where pool = pg_query and cat = "\<lambda>c. c" and w = "world0 None", OF pg_accepts start]
  have w1: "calls (ensureTableSchema pg_query (world0 None)) =
       [(tableCheckQuery, []), (createTableQuery, []), (columnNamesQuery, [])]"
    using first by (simp add: world0_def)
  note inst = ensureTableSchema_idempotent
    [where pool = pg_query and cat = "\<lambda>c. c" and w = "world0 None", OF pg_accepts,
      THEN conjunct1]
  then obtain cs where a: "db (ensureTableSchema pg_query (world0 None)) = Some cs"
    and b: "column_name ` set requiredColumns \<subseteq> set cs"
    and c: "db (world0 (None :: catalog)) = None \<longrightarrow> cs = created_columns \<and> ''id'' \<in> set cs"
    and d: "db (ensureTableSchema pg_query (ensureTableSchema pg_query (world0 None))) = Some cs"
    and e: "calls (ensureTableSchema pg_query (ensureTableSchema pg_query (world0 None))) =
          calls (ensureTableSchema pg_query (world0 None)) @
            [(tableCheckQuery, []), (columnNamesQuery, [])]"
    by (elim exE conjE)
  from c start have cs: "cs = created_columns" and ident: "''id'' \<in> set created_columns"
    by blast+
  show ?thesis
    using pg_accepts a b d e w1 ident unfolding cs by (intro conjI) simp_all
qed

text \<open>
  C7, as stated, promises the identifier, and no DDL on the second run, on every database
  state. A table that exists without the \<^verbatim>\<open>id\<close> column is not given one: the required
  columns do not list it. Such a state is reached through the repository itself, by
  \<^verbatim>\<open>deleteColumn('id')\<close> on the table the reconciler created. And on a database that
  refuses the reconciler's DDL the second run issues every ADD COLUMN again.
\<close>

theorem reconciliation_does_not_restore_id:
  "db (ensureTableSchema pg_query (world0 (Some [''property_name'']))) =
      Some [''property_name'', ''address'', ''total_area_in_sqft'', ''price_in_cr'',
            ''listed_date'', ''status'', ''total_earnings'']
   \<and> ''id'' \<notin> set (catalog_columns (db (ensureTableSchema pg_query (world0 (Some [''property_name'']))))) 
   \<and> fst (deleteColumn pg_query ''id'' (ensureTableSchema pg_query (world0 None))) = Inr ()
   \<and> db (ensureTableSchema pg_query
            (snd (deleteColumn pg_query ''id'' (ensureTableSchema pg_query (world0 None))))) =
      Some [''property_name'', ''address'', ''total_area_in_sqft'', ''price_in_cr'',
            ''listed_date'', ''status'', ''total_earnings'']
   \<and> db (ensureTableSchema refusing_pool (world0 (Some [''id'']))) = Some [''id'']
   \<and> length (calls (ensureTableSchema refusing_pool (world0 (Some [''id''])))) = 9
   \<and> db (ensureTableSchema refusing_pool
            (ensureTableSchema refusing_pool (world0 (Some [''id''])))) = Some [''id'']
   \<and> drop 9 (calls (ensureTableSchema refusing_pool
            (ensureTableSchema refusing_pool (world0 (Some [''id'']))))) =
      [(tableCheckQuery, []), (columnNamesQuery, []),
       (''ALTER TABLE property_data ADD COLUMN property_name VARCHAR;'', []),
       (''ALTER TABLE property_data ADD COLUMN address VARCHAR;'', []),
       (''ALTER TABLE property_data ADD COLUMN total_area_in_sqft NUMERIC;'', []),
       (''ALTER TABLE property_data ADD COLUMN price_in_cr NUMERIC;'', []),
       (''ALTER TABLE property_data ADD COLUMN listed_date DATE;'', []),
       (''ALTER TABLE property_data ADD COLUMN status VARCHAR;'', []),
       (''ALTER TABLE property_data ADD COLUMN total_earnings NUMERIC;'', [])]"
  by code_simp

end
